theory Spec2Isabelle
  imports Complex_Main "HOL-Library.Sublist" "HOL-Library.Char_ord" "HOL-Library.List_Lexorder"
begin

section \<open>Progress Tracker (packages/server/src/ai-processing-status.ts)\<close>

text \<open>
  \<^verbatim>\<open>interface ProcessingStatus { total; processed; inProgress; startTime; lastUpdate }\<close>.
  The two counters are JavaScript numbers; \<^verbatim>\<open>processed\<close> only ever holds 0 or the result
  of \<^verbatim>\<open>++\<close>, and \<^verbatim>\<open>total\<close> holds whatever number \<^verbatim>\<open>startProcessing\<close> is given (the only
  caller passes an array length), so both are modelled as integers. A \<^verbatim>\<open>Date\<close> is a
  millisecond count; \<^verbatim>\<open>new Date()\<close> reads a clock that the model takes as an argument.
\<close>

record ProcessingStatus =
  st_total :: int
  st_processed :: int
  st_inProgress :: bool
  st_startTime :: "nat option"
  st_lastUpdate :: "nat option"

text \<open>The field initialiser of class \<^verbatim>\<open>AIProcessingTracker\<close>.\<close>

definition aiTracker_init :: ProcessingStatus where
  "aiTracker_init =
     \<lparr>st_total = 0, st_processed = 0, st_inProgress = False,
      st_startTime = None, st_lastUpdate = None\<rparr>"

definition startProcessing :: "int \<Rightarrow> nat \<Rightarrow> ProcessingStatus \<Rightarrow> ProcessingStatus" where
  "startProcessing totalCount now s =
     \<lparr>st_total = totalCount, st_processed = 0, st_inProgress = True,
      st_startTime = Some now, st_lastUpdate = Some now\<rparr>"

definition incrementProcessed :: "nat \<Rightarrow> ProcessingStatus \<Rightarrow> ProcessingStatus" where
  "incrementProcessed now s =
     s\<lparr>st_processed := st_processed s + 1, st_lastUpdate := Some now\<rparr>"

definition completeProcessing :: "nat \<Rightarrow> ProcessingStatus \<Rightarrow> ProcessingStatus" where
  "completeProcessing now s = s\<lparr>st_inProgress := False, st_lastUpdate := Some now\<rparr>"

definition isProcessing :: "ProcessingStatus \<Rightarrow> bool" where
  "isProcessing s = st_inProgress s"

text \<open>
  A caller of the tracker performs a sequence of these three calls, each at some clock
  reading.
\<close>

datatype tracker_call = StartProcessing int | IncrementProcessed | CompleteProcessing

fun tracker_step :: "ProcessingStatus \<Rightarrow> nat \<times> tracker_call \<Rightarrow> ProcessingStatus" where
  "tracker_step s (now, StartProcessing n) = startProcessing n now s"
| "tracker_step s (now, IncrementProcessed) = incrementProcessed now s"
| "tracker_step s (now, CompleteProcessing) = completeProcessing now s"

definition tracker_run :: "(nat \<times> tracker_call) list \<Rightarrow> ProcessingStatus \<Rightarrow> ProcessingStatus" where
  "tracker_run calls s = foldl tracker_step s calls"

text \<open>Reading a call sequence without running it.\<close>

fun is_start :: "nat \<times> tracker_call \<Rightarrow> bool" where
  "is_start (now, StartProcessing n) = True"
| "is_start (now, c) = False"

fun is_increment :: "nat \<times> tracker_call \<Rightarrow> bool" where
  "is_increment (now, IncrementProcessed) = True"
| "is_increment (now, c) = False"

fun is_complete :: "nat \<times> tracker_call \<Rightarrow> bool" where
  "is_complete (now, CompleteProcessing) = True"
| "is_complete (now, c) = False"

text \<open>
  \<open>run_open calls\<close>: the last call among the starts and completions is a start, that
  is, a run has been started and not yet completed.
\<close>

definition run_open :: "(nat \<times> tracker_call) list \<Rightarrow> bool" where
  "run_open calls =
     (case rev (filter (\<lambda>c. is_start c \<or> is_complete c) calls) of
        [] \<Rightarrow> False
      | c # cs \<Rightarrow> is_start c)"

section \<open>Response groups (packages/server/src/routes.ts)\<close>

datatype response_group = Promoter | Passive | Detractor

text \<open>
  The expression of \<^verbatim>\<open>/api/csv\<close>, \<^verbatim>\<open>/api/upload\<close> and \<^verbatim>\<open>/api/nps-responses/bulk\<close>
  (and of pendo.ts and the dashboard's own upload):
  \<^verbatim>\<open>r.rating >= 9 ? 'Promoter' : r.rating >= 7 ? 'Passive' : 'Detractor'\<close>,
  on an integer rating.
\<close>

definition responseGroup :: "int \<Rightarrow> response_group" where
  "responseGroup rating =
     (if rating \<ge> 9 then Promoter else if rating \<ge> 7 then Passive else Detractor)"

text \<open>
  The segmentation of \<^verbatim>\<open>/api/nps-stats\<close>, \<^verbatim>\<open>/api/stats/nps\<close> and \<^verbatim>\<open>LocalDB.getNPSStats\<close>,
  three filters over the ratings of the rows:
  \<^verbatim>\<open>rows.filter(r => r.rating >= 9).length\<close>,
  \<^verbatim>\<open>rows.filter(r => r.rating >= 7 && r.rating <= 8).length\<close>,
  \<^verbatim>\<open>rows.filter(r => r.rating <= 6).length\<close>.
\<close>

definition promoters :: "int list \<Rightarrow> nat" where
  "promoters ratings = length (filter (\<lambda>r. r \<ge> 9) ratings)"

definition passives :: "int list \<Rightarrow> nat" where
  "passives ratings = length (filter (\<lambda>r. r \<ge> 7 \<and> r \<le> 8) ratings)"

definition detractors :: "int list \<Rightarrow> nat" where
  "detractors ratings = length (filter (\<lambda>r. r \<le> 6) ratings)"

section \<open>JavaScript values\<close>

text \<open>
  Strings are JavaScript strings restricted to the code units 0..255, one \<^typ>\<open>char\<close> per
  code unit. Numbers are IEEE doubles; the code modelled here only compares them, takes
  minima and maxima and names the constants 0, 0.3, 0.5, 0.6, 0.8 and 1, so a finite
  number is a real and the three special values are kept apart.
\<close>

datatype jsnum = Fin real | PInf | NInf | NaN

datatype jsval =
    JUndefined
  | JNull
  | JBool bool
  | JNum jsnum
  | JStr string
  | JArr "jsval list"
  | JObj "(string \<times> jsval) list"

datatype error = TypeError | SyntaxError | FetchError | SqliteError

text \<open>ToBoolean: what \<^verbatim>\<open>!v\<close>, \<^verbatim>\<open>v || w\<close> and \<^verbatim>\<open>if (v)\<close> test.\<close>

fun truthy :: "jsval \<Rightarrow> bool" where
  "truthy JUndefined = False"
| "truthy JNull = False"
| "truthy (JBool b) = b"
| "truthy (JNum n) = (n \<noteq> Fin 0 \<and> n \<noteq> NaN)"
| "truthy (JStr s) = (s \<noteq> [])"
| "truthy (JArr vs) = True"
| "truthy (JObj kvs) = True"

text \<open>\<^verbatim>\<open>a || b\<close> on values.\<close>

definition js_or :: "jsval \<Rightarrow> jsval \<Rightarrow> jsval" where
  "js_or a b = (if truthy a then a else b)"

text \<open>
  \<^verbatim>\<open>String.prototype.trim\<close>: the white space and line terminators of the language that
  lie in the code units 0..255 are TAB, LF, VT, FF, CR, SPACE and NBSP.
\<close>

definition is_space :: "char \<Rightarrow> bool" where
  "is_space c = (of_char c \<in> {9, 10, 11, 12, 13, 32, 160 :: nat})"

definition trim :: "string \<Rightarrow> string" where
  "trim s = rev (dropWhile is_space (rev (dropWhile is_space s)))"

section \<open>Response Store (packages/server/src/local-db.ts)\<close>

text \<open>
  A row of table \<^verbatim>\<open>nps_responses\<close>; a column that may hold NULL is an option. The
  rating is an integer (column \<^verbatim>\<open>rating INTEGER NOT NULL\<close>).
\<close>

record nps_response =
  r_id :: nat
  r_rating :: int
  r_comment :: "string option"
  r_language :: "string option"
  r_date :: string
  r_customer_id :: "string option"
  r_visitor_id :: "string option"
  r_platform :: "string option"
  r_sentiment :: "string option"
  r_sentiment_confidence :: "jsnum option"
  r_created_at :: string
  r_updated_at :: string

text \<open>A row of table \<^verbatim>\<open>topic_mentions\<close>.\<close>

record topic_mention =
  t_id :: nat
  t_response_id :: nat
  t_topic :: string
  t_confidence :: jsnum
  t_created_at :: string

text \<open>
  The database behind module-level \<^verbatim>\<open>db\<close>: whether the connection is open
  (\<^verbatim>\<open>LocalDB.close\<close> closes it, and every statement on a closed connection throws), the
  two tables in insertion order, and the AUTOINCREMENT counters, which \<^verbatim>\<open>DELETE\<close> does
  not reset.
\<close>

record db_state =
  db_open :: bool
  db_nps_responses :: "nps_response list"
  db_topic_mentions :: "topic_mention list"
  db_seq_responses :: nat
  db_seq_topics :: nat

text \<open>The argument of \<^verbatim>\<open>insertResponse\<close>; an optional member that is absent is \<open>None\<close>.\<close>

record insert_data =
  d_rating :: int
  d_comment :: "string option"
  d_language :: "string option"
  d_date :: string
  d_customer_id :: "string option"
  d_visitor_id :: "string option"
  d_platform :: "string option"
  d_sentiment :: "string option"
  d_sentiment_confidence :: "jsnum option"

text \<open>\<^verbatim>\<open>x || null\<close> on an optional string and on an optional number.\<close>

definition str_or_null :: "string option \<Rightarrow> string option" where
  "str_or_null x = (case x of None \<Rightarrow> None | Some s \<Rightarrow> if truthy (JStr s) then Some s else None)"

definition num_or_null :: "jsnum option \<Rightarrow> jsnum option" where
  "num_or_null x = (case x of None \<Rightarrow> None | Some n \<Rightarrow> if truthy (JNum n) then Some n else None)"

text \<open>
  \<^verbatim>\<open>LocalDB.insertResponse\<close>. The two timestamp columns default to \<^verbatim>\<open>CURRENT_TIMESTAMP\<close>,
  the text \<open>now\<close>.
\<close>

definition insertResponse :: "string \<Rightarrow> insert_data \<Rightarrow> db_state \<Rightarrow> error + db_state" where
  "insertResponse now data db =
     (if \<not> db_open db then Inl TypeError
      else Inr (db\<lparr>
        db_nps_responses := db_nps_responses db @
          [\<lparr>r_id = Suc (db_seq_responses db),
            r_rating = d_rating data,
            r_comment = str_or_null (d_comment data),
            r_language = str_or_null (d_language data),
            r_date = d_date data,
            r_customer_id = str_or_null (d_customer_id data),
            r_visitor_id = str_or_null (d_visitor_id data),
            r_platform = str_or_null (d_platform data),
            r_sentiment = str_or_null (d_sentiment data),
            r_sentiment_confidence = num_or_null (d_sentiment_confidence data),
            r_created_at = now,
            r_updated_at = now\<rparr>],
        db_seq_responses := Suc (db_seq_responses db)\<rparr>))"

text \<open>
  \<^verbatim>\<open>LocalDB.insertTopicMentions\<close>: one row per topic, in one transaction. The driver
  enforces foreign keys: a mention whose \<^verbatim>\<open>response_id\<close> is the id of no row of
  \<^verbatim>\<open>nps_responses\<close> makes the statement throw, and the transaction is rolled back. With
  no topic no statement runs.
\<close>

fun insertMany :: "string \<Rightarrow> nat \<Rightarrow> (string \<times> jsnum) list \<Rightarrow> db_state \<Rightarrow> db_state" where
  "insertMany now responseId [] db = db"
| "insertMany now responseId ((topic, confidence) # topics) db =
     insertMany now responseId topics
       (db\<lparr>db_topic_mentions := db_topic_mentions db @
              [\<lparr>t_id = Suc (db_seq_topics db), t_response_id = responseId, t_topic = topic,
                t_confidence = confidence, t_created_at = now\<rparr>],
           db_seq_topics := Suc (db_seq_topics db)\<rparr>)"

definition insertTopicMentions ::
  "string \<Rightarrow> nat \<Rightarrow> (string \<times> jsnum) list \<Rightarrow> db_state \<Rightarrow> error + db_state" where
  "insertTopicMentions now responseId topics db =
     (if \<not> db_open db then Inl TypeError
      else if topics \<noteq> [] \<and> responseId \<notin> set (map r_id (db_nps_responses db))
      then Inl SqliteError
      else Inr (insertMany now responseId topics db))"

text \<open>\<^verbatim>\<open>LocalDB.clearAll\<close> and \<^verbatim>\<open>LocalDB.close\<close>.\<close>

definition clearAll :: "db_state \<Rightarrow> error + db_state" where
  "clearAll db =
     (if \<not> db_open db then Inl TypeError
      else Inr (db\<lparr>db_topic_mentions := [], db_nps_responses := []\<rparr>))"

definition close :: "db_state \<Rightarrow> db_state" where
  "close db = db\<lparr>db_open := False\<rparr>"

text \<open>
  \<^verbatim>\<open>LocalDB.getResponses\<close> with no filter (\<^verbatim>\<open>getResponses()\<close>, \<^verbatim>\<open>getResponses({})\<close>: every
  \<^verbatim>\<open>if (filters.x)\<close> is skipped). A result row is a row of \<^verbatim>\<open>nps_responses\<close> with column
  \<^verbatim>\<open>topics\<close>, the \<^verbatim>\<open>GROUP_CONCAT\<close> of the topics of its mentions (NULL when it has none).
  Column \<^verbatim>\<open>topic_confidences\<close>, the same concatenation of the confidences rendered as
  text, is read by no route and is left out. \<^verbatim>\<open>ORDER BY r.date DESC\<close> compares the
  dates as texts, later dates first; rows of equal date keep the order of the scan,
  which is the order of insertion.
\<close>

fun join_comma :: "string list \<Rightarrow> string" where
  "join_comma [] = []"
| "join_comma [x] = x"
| "join_comma (x # y # ys) = x @ '','' @ join_comma (y # ys)"

definition group_concat_topics :: "topic_mention list \<Rightarrow> nat \<Rightarrow> string option" where
  "group_concat_topics mentions rid =
     (case filter (\<lambda>t. t_response_id t = rid) mentions of
        [] \<Rightarrow> None
      | m # ms \<Rightarrow> Some (join_comma (map t_topic (m # ms))))"

definition getResponses :: "db_state \<Rightarrow> error + (nps_response \<times> string option) list" where
  "getResponses db =
     (if \<not> db_open db then Inl TypeError
      else Inr (map (\<lambda>r. (r, group_concat_topics (db_topic_mentions db) (r_id r)))
                  (rev (sort_key r_date (rev (db_nps_responses db))))))"

section \<open>Inference endpoint and JavaScript built-ins\<close>

text \<open>
  The text of a prompt is a fixed template filled with the entry of the language table
  and the comment, so a prompt is kept as the template, the language and the comment.
\<close>

datatype prompt =
    LocalSentimentPrompt string string
  | LocalTopicsPrompt string string
  | OllamaSentimentPrompt string string
  | OllamaTopicsPrompt string string

text \<open>
  What one \<^verbatim>\<open>POST /api/generate\<close> comes to: the \<^verbatim>\<open>response\<close> string of the body, or a
  failure (\<^verbatim>\<open>fetch\<close> rejects, the status is not ok, the body has no such string). The
  endpoint is a function of the number of requests sent before and of the prompt.
\<close>

datatype endpoint_reply = Reply string | Failed

type_synonym endpoint = "nat \<Rightarrow> prompt \<Rightarrow> endpoint_reply"

text \<open>
  \<^verbatim>\<open>generate\<close> of both clients: returns \<^verbatim>\<open>data.response.trim()\<close> or rethrows. The
  number is the count of requests sent.
\<close>

definition generate :: "endpoint \<Rightarrow> prompt \<Rightarrow> nat \<Rightarrow> (error + string) \<times> nat" where
  "generate ep p n =
     (case ep n p of Failed \<Rightarrow> (Inl FetchError, Suc n) | Reply r \<Rightarrow> (Inr (trim r), Suc n))"

text \<open>
  \<^verbatim>\<open>JSON.parse\<close> is a built-in of the language; the clients are modelled over any
  function from texts to a value or a \<^verbatim>\<open>SyntaxError\<close>.
\<close>

type_synonym json_parser = "string \<Rightarrow> error + jsval"

text \<open>
  \<^verbatim>\<open>v.k\<close> for the member names the clients read (\<^verbatim>\<open>sentiment\<close>, \<^verbatim>\<open>confidence\<close>,
  \<^verbatim>\<open>explanation\<close>, \<^verbatim>\<open>topics\<close>), none of which a built-in prototype defines: a
  \<^verbatim>\<open>TypeError\<close> on \<^verbatim>\<open>null\<close> and \<^verbatim>\<open>undefined\<close>, the own member of an object (of a repeated
  name, the last), \<^verbatim>\<open>undefined\<close> otherwise.
\<close>

fun get_prop :: "jsval \<Rightarrow> string \<Rightarrow> error + jsval" where
  "get_prop JUndefined k = Inl TypeError"
| "get_prop JNull k = Inl TypeError"
| "get_prop (JObj kvs) k = Inr (case map_of (rev kvs) k of None \<Rightarrow> JUndefined | Some v \<Rightarrow> v)"
| "get_prop v k = Inr JUndefined"

text \<open>
  ToNumber, which \<^verbatim>\<open>Math.max\<close> applies to its arguments. On a string, an array or an
  object it is the language's text-to-number conversion or ToPrimitive (which can
  throw); that part is the parameter \<open>conv\<close>.
\<close>

fun ToNumber :: "(jsval \<Rightarrow> error + jsnum) \<Rightarrow> jsval \<Rightarrow> error + jsnum" where
  "ToNumber conv JUndefined = Inr NaN"
| "ToNumber conv JNull = Inr (Fin 0)"
| "ToNumber conv (JBool b) = Inr (Fin (if b then 1 else 0))"
| "ToNumber conv (JNum n) = Inr n"
| "ToNumber conv v = conv v"

fun Math_max :: "jsnum \<Rightarrow> jsnum \<Rightarrow> jsnum" where
  "Math_max NaN b = NaN"
| "Math_max a NaN = NaN"
| "Math_max PInf b = PInf"
| "Math_max a PInf = PInf"
| "Math_max NInf b = b"
| "Math_max a NInf = a"
| "Math_max (Fin x) (Fin y) = Fin (max x y)"

fun Math_min :: "jsnum \<Rightarrow> jsnum \<Rightarrow> jsnum" where
  "Math_min NaN b = NaN"
| "Math_min a NaN = NaN"
| "Math_min NInf b = NInf"
| "Math_min a NInf = NInf"
| "Math_min PInf b = b"
| "Math_min a PInf = a"
| "Math_min (Fin x) (Fin y) = Fin (min x y)"

text \<open>A number in the interval from 0 to 1.\<close>

fun in_unit_interval :: "jsnum \<Rightarrow> bool" where
  "in_unit_interval (Fin x) = (0 \<le> x \<and> x \<le> 1)"
| "in_unit_interval n = False"

text \<open>\<^verbatim>\<open>String.prototype.toLowerCase\<close> on the code units 0..255.\<close>

definition toLowerCase_char :: "char \<Rightarrow> char" where
  "toLowerCase_char c =
     (let n = of_char c :: nat
      in if (65 \<le> n \<and> n \<le> 90) \<or> (192 \<le> n \<and> n \<le> 222 \<and> n \<noteq> 215)
         then char_of (n + 32) else c)"

definition toLowerCase :: "string \<Rightarrow> string" where
  "toLowerCase s = map toLowerCase_char s"

text \<open>\<^verbatim>\<open>s.includes(w)\<close>: \<open>w\<close> occurs in \<open>s\<close>.\<close>

fun includes_str :: "string \<Rightarrow> string \<Rightarrow> bool" where
  "includes_str [] w = (w = [])"
| "includes_str (c # cs) w = (prefix w (c # cs) \<or> includes_str cs w)"

text \<open>
  \<open>split_at_first w s\<close>: the text before and the text after the first occurrence of
  \<open>w\<close> in \<open>s\<close>.
\<close>

fun split_at_first :: "string \<Rightarrow> string \<Rightarrow> (string \<times> string) option" where
  "split_at_first w [] = (if w = [] then Some ([], []) else None)"
| "split_at_first w (c # cs) =
     (if prefix w (c # cs) then Some ([], drop (length w) (c # cs))
      else (case split_at_first w cs of
              None \<Rightarrow> None
            | Some (before, after) \<Rightarrow> Some (c # before, after)))"

text \<open>
  \<^verbatim>\<open>response.match(/\{[\s\S]*\}/)\<close>, the greedy pattern of \<^verbatim>\<open>LocalLLM\<close>: from the first
  \<^verbatim>\<open>{\<close> to the last \<^verbatim>\<open>}\<close> after it.
\<close>

definition match_object_greedy :: "string \<Rightarrow> string option" where
  "match_object_greedy s =
     (case split_at_first ''{'' s of
        None \<Rightarrow> None
      | Some (before, after) \<Rightarrow>
          (case split_at_first ''}'' (rev after) of
             None \<Rightarrow> None
           | Some (tail_rev, body_rev) \<Rightarrow> Some (''{'' @ rev body_rev @ ''}'')))"

text \<open>
  \<^verbatim>\<open>response.match(/\{[\s\S]*?\}/)\<close>, the lazy pattern of \<^verbatim>\<open>OllamaLLM\<close>: from the first
  \<^verbatim>\<open>{\<close> to the first \<^verbatim>\<open>}\<close> after it.
\<close>

definition match_object_lazy :: "string \<Rightarrow> string option" where
  "match_object_lazy s =
     (case split_at_first ''{'' s of
        None \<Rightarrow> None
      | Some (before, after) \<Rightarrow>
          (case split_at_first ''}'' after of
             None \<Rightarrow> None
           | Some (body, rest) \<Rightarrow> Some (''{'' @ body @ ''}'')))"

section \<open>Classification Client, first variant (packages/server/src/local-llm.ts)\<close>

text \<open>\<^verbatim>\<open>interface SentimentResult { sentiment; confidence: number; explanation? }\<close>.\<close>

record SentimentResult =
  sr_sentiment :: jsval
  sr_confidence :: jsnum
  sr_explanation :: jsval

definition positiveWords :: "string list" where
  "positiveWords = [''good'', ''great'', ''excellent'', ''love'', ''amazing'', ''perfect'',
     ''easy'', ''fast'', ''helpful'']"

definition negativeWords :: "string list" where
  "negativeWords = [''bad'', ''terrible'', ''awful'', ''hate'', ''slow'', ''crash'', ''error'',
     ''problem'', ''issue'', ''expensive'']"

text \<open>The block after \<^verbatim>\<open>// Fallback: simple keyword analysis\<close>.\<close>

definition keyword_analysis :: "string \<Rightarrow> SentimentResult" where
  "keyword_analysis comment =
     (let lowerComment = toLowerCase comment;
          positiveCount = length (filter (\<lambda>word. includes_str lowerComment word) positiveWords);
          negativeCount = length (filter (\<lambda>word. includes_str lowerComment word) negativeWords)
      in if positiveCount > negativeCount then
           \<lparr>sr_sentiment = JStr ''positive'', sr_confidence = Fin 0.6, sr_explanation = JUndefined\<rparr>
         else if negativeCount > positiveCount then
           \<lparr>sr_sentiment = JStr ''negative'', sr_confidence = Fin 0.6, sr_explanation = JUndefined\<rparr>
         else
           \<lparr>sr_sentiment = JStr ''neutral'', sr_confidence = Fin 0.5, sr_explanation = JUndefined\<rparr>)"

text \<open>
  The block under \<^verbatim>\<open>if (jsonMatch)\<close>: \<^verbatim>\<open>JSON.parse\<close>, then the object literal with
  \<^verbatim>\<open>Math.min(Math.max(result.confidence || 0.5, 0), 1)\<close>. Whatever is thrown here is
  caught by the \<^verbatim>\<open>catch\<close> of \<^verbatim>\<open>analyzeSentiment\<close>.
\<close>

definition sentiment_of_json ::
  "json_parser \<Rightarrow> (jsval \<Rightarrow> error + jsnum) \<Rightarrow> string \<Rightarrow> error + SentimentResult" where
  "sentiment_of_json JSON_parse conv text =
     (case JSON_parse text of
        Inl e \<Rightarrow> Inl e
      | Inr result \<Rightarrow>
          (case get_prop result ''sentiment'' of
             Inl e \<Rightarrow> Inl e
           | Inr sentiment \<Rightarrow>
               (case get_prop result ''confidence'' of
                  Inl e \<Rightarrow> Inl e
                | Inr confidence \<Rightarrow>
                    (case ToNumber conv (js_or confidence (JNum (Fin 0.5))) of
                       Inl e \<Rightarrow> Inl e
                     | Inr x \<Rightarrow>
                         (case get_prop result ''explanation'' of
                            Inl e \<Rightarrow> Inl e
                          | Inr explanation \<Rightarrow>
                              Inr \<lparr>sr_sentiment = sentiment,
                                   sr_confidence = Math_min (Math_max x (Fin 0)) (Fin 1),
                                   sr_explanation = explanation\<rparr>)))))"

text \<open>
  \<^verbatim>\<open>LocalLLM.analyzeSentiment(comment, language)\<close> on a string \<open>comment\<close>; \<open>n\<close> is the
  number of requests sent before the call, the second component of the result the
  number sent after it.
\<close>

definition LocalLLM_analyzeSentiment ::
  "json_parser \<Rightarrow> (jsval \<Rightarrow> error + jsnum) \<Rightarrow> endpoint \<Rightarrow> string \<Rightarrow> string \<Rightarrow> nat
     \<Rightarrow> SentimentResult \<times> nat" where
  "LocalLLM_analyzeSentiment JSON_parse conv ep comment language n =
     (if \<not> truthy (JStr comment) \<or> length (trim comment) = 0 then
        (\<lparr>sr_sentiment = JStr ''neutral'', sr_confidence = Fin 0,
          sr_explanation = JStr ''Empty comment''\<rparr>, n)
      else
        (case generate ep (LocalSentimentPrompt language comment) n of
           (Inl e, n') \<Rightarrow>
             (\<lparr>sr_sentiment = JStr ''neutral'', sr_confidence = Fin 0.3,
               sr_explanation = JUndefined\<rparr>, n')
         | (Inr response, n') \<Rightarrow>
             (case match_object_greedy response of
                Some jsonMatch \<Rightarrow>
                  (case sentiment_of_json JSON_parse conv jsonMatch of
                     Inl e \<Rightarrow>
                       (\<lparr>sr_sentiment = JStr ''neutral'', sr_confidence = Fin 0.3,
                         sr_explanation = JUndefined\<rparr>, n')
                   | Inr r \<Rightarrow> (r, n'))
              | None \<Rightarrow> (keyword_analysis comment, n'))))"

section \<open>Classification Client, second variant (ollama-llm.ts, the one routes.ts imports)\<close>

text \<open>\<^verbatim>\<open>interface SentimentResult { sentiment; explanation? }\<close>: no confidence.\<close>

record OllamaSentimentResult =
  osr_sentiment :: jsval
  osr_explanation :: jsval

definition ollama_sentiment_of_json :: "json_parser \<Rightarrow> string \<Rightarrow> error + OllamaSentimentResult" where
  "ollama_sentiment_of_json JSON_parse text =
     (case JSON_parse text of
        Inl e \<Rightarrow> Inl e
      | Inr parsed \<Rightarrow>
          (case get_prop parsed ''sentiment'' of
             Inl e \<Rightarrow> Inl e
           | Inr sentiment \<Rightarrow>
               (case get_prop parsed ''explanation'' of
                  Inl e \<Rightarrow> Inl e
                | Inr explanation \<Rightarrow>
                    Inr \<lparr>osr_sentiment = js_or sentiment (JStr ''neutral''),
                         osr_explanation = js_or explanation (JStr ''Analysis completed'')\<rparr>)))"

definition OllamaLLM_analyzeSentiment ::
  "json_parser \<Rightarrow> endpoint \<Rightarrow> string \<Rightarrow> string \<Rightarrow> nat \<Rightarrow> OllamaSentimentResult \<times> nat" where
  "OllamaLLM_analyzeSentiment JSON_parse ep comment language n =
     (if \<not> truthy (JStr comment) \<or> length (trim comment) = 0 then
        (\<lparr>osr_sentiment = JStr ''neutral'', osr_explanation = JStr ''Empty comment''\<rparr>, n)
      else
        (case generate ep (OllamaSentimentPrompt language comment) n of
           (Inl e, n') \<Rightarrow>
             (\<lparr>osr_sentiment = JStr ''neutral'', osr_explanation = JStr ''Analysis failed''\<rparr>, n')
         | (Inr response, n') \<Rightarrow>
             (case match_object_lazy response of
                Some jsonMatch \<Rightarrow>
                  (case ollama_sentiment_of_json JSON_parse jsonMatch of
                     Inl e \<Rightarrow>
                       (\<lparr>osr_sentiment = JStr ''neutral'',
                         osr_explanation = JStr ''Analysis failed''\<rparr>, n')
                   | Inr r \<Rightarrow> (r, n'))
              | None \<Rightarrow>
                  (\<lparr>osr_sentiment = JStr ''neutral'',
                    osr_explanation = JStr ''Could not parse response''\<rparr>, n'))))"

text \<open>
  The objects the two clients return, as values: the members a caller can read from a
  sentiment result of each.
\<close>

definition SentimentResult_object :: "SentimentResult \<Rightarrow> jsval" where
  "SentimentResult_object r =
     JObj [(''sentiment'', sr_sentiment r), (''confidence'', JNum (sr_confidence r)),
           (''explanation'', sr_explanation r)]"

definition OllamaSentimentResult_object :: "OllamaSentimentResult \<Rightarrow> jsval" where
  "OllamaSentimentResult_object r =
     JObj [(''sentiment'', osr_sentiment r), (''explanation'', osr_explanation r)]"

text \<open>\<^verbatim>\<open>interface TopicResult { topics }\<close>; what the client stores there is not checked.\<close>

record TopicResult =
  tr_topics :: jsval

definition general_topic :: "real \<Rightarrow> TopicResult" where
  "general_topic c =
     \<lparr>tr_topics = JArr [JObj [(''topic'', JStr ''general''), (''confidence'', JNum (Fin c))]]\<rparr>"

definition topics_key :: string where
  \<open>topics_key = ''"topics"''\<close>

definition topics_colon :: string where
  \<open>topics_colon = ''"topics":''\<close>

text \<open>
  \<^verbatim>\<open>response.match(/\{[\s\S]*?"topics"[\s\S]*?\]/)\<close>: from the first \<^verbatim>\<open>{\<close>, over the first
  \<^verbatim>\<open>"topics"\<close> after it, to the first \<^verbatim>\<open>]\<close> after that.
\<close>

definition match_topics_object :: "string \<Rightarrow> string option" where
  "match_topics_object s =
     (case split_at_first ''{'' s of
        None \<Rightarrow> None
      | Some (before, a) \<Rightarrow>
          (case split_at_first topics_key a of
             None \<Rightarrow> None
           | Some (b, c) \<Rightarrow>
               (case split_at_first '']'' c of
                  None \<Rightarrow> None
                | Some (d, rest) \<Rightarrow> Some (''{'' @ b @ topics_key @ d @ '']''))))"

text \<open>
  \<^verbatim>\<open>response.match(/"topics":\s*\[[\s\S]*?\]/)\<close>: the first \<^verbatim>\<open>"topics":\<close> that white space
  and \<^verbatim>\<open>[\<close> follow and that has a \<^verbatim>\<open>]\<close> after it, up to the first such \<^verbatim>\<open>]\<close>.
\<close>

fun match_topics_array :: "string \<Rightarrow> string option" where
  "match_topics_array [] = None"
| "match_topics_array (c # cs) =
     (if prefix topics_colon (c # cs) then
        (let rest = drop (length topics_colon) (c # cs);
             spaces = takeWhile is_space rest
         in case dropWhile is_space rest of
              [] \<Rightarrow> match_topics_array cs
            | x # xs \<Rightarrow>
                if x = CHR ''['' then
                  (case split_at_first '']'' xs of
                     None \<Rightarrow> match_topics_array cs
                   | Some (d, after) \<Rightarrow> Some (topics_colon @ spaces @ ''['' @ d @ '']''))
                else match_topics_array cs)
      else match_topics_array cs)"

fun is_array :: "jsval \<Rightarrow> bool" where
  "is_array (JArr vs) = True"
| "is_array v = False"

text \<open>
  The first attempt of \<^verbatim>\<open>extractTopics\<close>, \<^verbatim>\<open>if (jsonMatch) { ... }\<close>: a result when it
  returns, \<open>None\<close> when control falls through to the second attempt.
\<close>

definition topics_first_attempt :: "json_parser \<Rightarrow> string \<Rightarrow> error + TopicResult option" where
  "topics_first_attempt JSON_parse response =
     (case match_topics_object response of
        None \<Rightarrow> Inr None
      | Some jsonMatch \<Rightarrow>
          (let jsonStr = (if \<not> suffix ''}'' jsonMatch then jsonMatch @ ''}'' else jsonMatch)
           in case JSON_parse jsonStr of
                Inl e \<Rightarrow> Inl e
              | Inr parsed \<Rightarrow>
                  (case get_prop parsed ''topics'' of
                     Inl e \<Rightarrow> Inl e
                   | Inr topics \<Rightarrow>
                       if truthy topics \<and> is_array topics
                       then Inr (Some \<lparr>tr_topics = topics\<rparr>) else Inr None)))"

definition topics_of_response :: "json_parser \<Rightarrow> string \<Rightarrow> error + TopicResult" where
  "topics_of_response JSON_parse response =
     (case topics_first_attempt JSON_parse response of
        Inl e \<Rightarrow> Inl e
      | Inr (Some r) \<Rightarrow> Inr r
      | Inr None \<Rightarrow>
          (case match_topics_array response of
             Some topicsMatch \<Rightarrow>
               (case JSON_parse (''{'' @ topicsMatch @ ''}'') of
                  Inl e \<Rightarrow> Inl e
                | Inr parsed \<Rightarrow>
                    (case get_prop parsed ''topics'' of
                       Inl e \<Rightarrow> Inl e
                     | Inr topics \<Rightarrow> Inr \<lparr>tr_topics = topics\<rparr>))
           | None \<Rightarrow> Inr (general_topic 0.5)))"

definition OllamaLLM_extractTopics ::
  "json_parser \<Rightarrow> endpoint \<Rightarrow> string \<Rightarrow> string \<Rightarrow> nat \<Rightarrow> TopicResult \<times> nat" where
  "OllamaLLM_extractTopics JSON_parse ep comment language n =
     (if \<not> truthy (JStr comment) \<or> length (trim comment) = 0 then (general_topic 1, n)
      else
        (case generate ep (OllamaTopicsPrompt language comment) n of
           (Inl e, n') \<Rightarrow> (general_topic 0.1, n')
         | (Inr response, n') \<Rightarrow>
             (case topics_of_response JSON_parse response of
                Inl e \<Rightarrow> (general_topic 0.1, n')
              | Inr r \<Rightarrow> (r, n'))))"

section \<open>Enrichment Orchestrator (packages/server/src/routes.ts)\<close>

text \<open>
  What a run reads and writes: the tracker singleton, the database, the number of
  requests sent to the inference endpoint, and the clock. Time passes in the model only
  in the explicit delay of the loop. Console output is not modelled.
\<close>

record world =
  w_tracker :: ProcessingStatus
  w_db :: db_state
  w_requests :: nat
  w_now :: nat

text \<open>The object literal handed to \<^verbatim>\<open>LocalDB.updateResponse\<close>.\<close>

record response_update =
  u_sentiment :: jsval
  u_sentiment_confidence :: jsnum
  u_topics :: jsval

text \<open>
  The member \<^verbatim>\<open>updateResponse\<close> of class \<^verbatim>\<open>LocalDB\<close> as the loop finds it: a method
  taking the row id and the update, or nothing. Class \<^verbatim>\<open>LocalDB\<close> of local-db.ts
  declares \<^verbatim>\<open>clearAll\<close>, \<^verbatim>\<open>insertResponse\<close>, \<^verbatim>\<open>insertTopicMentions\<close>, \<^verbatim>\<open>getResponses\<close>,
  \<^verbatim>\<open>getNPSStats\<close>, \<^verbatim>\<open>getSentimentDistribution\<close>, \<^verbatim>\<open>getTopicDistribution\<close>, \<^verbatim>\<open>logSync\<close>,
  \<^verbatim>\<open>getSyncHistory\<close>, \<^verbatim>\<open>backupToCSV\<close> and \<^verbatim>\<open>close\<close>, and no \<^verbatim>\<open>updateResponse\<close>: the
  member is \<^verbatim>\<open>undefined\<close>, and calling it throws a \<^verbatim>\<open>TypeError\<close>.
\<close>

type_synonym update_method = "nat \<Rightarrow> response_update \<Rightarrow> db_state \<Rightarrow> error + db_state"

definition LocalDB_updateResponse :: "update_method option" where
  "LocalDB_updateResponse = None"

definition call_updateResponse ::
  "update_method option \<Rightarrow> nat \<Rightarrow> response_update \<Rightarrow> db_state \<Rightarrow> error + db_state" where
  "call_updateResponse member rid u db =
     (case member of None \<Rightarrow> Inl TypeError | Some method \<Rightarrow> method rid u db)"

text \<open>
  The filter of \<^verbatim>\<open>processCommentsWithAI\<close>:
  \<^verbatim>\<open>r.comment && r.comment.trim().length > 0 && (!r.sentiment || r.sentiment === 'neutral')\<close>.
\<close>

definition needs_processing :: "nps_response \<times> string option \<Rightarrow> bool" where
  "needs_processing row =
     (case r_comment (fst row) of
        None \<Rightarrow> False
      | Some comment \<Rightarrow>
          truthy (JStr comment) \<and> length (trim comment) > 0 \<and>
          (case r_sentiment (fst row) of
             None \<Rightarrow> True
           | Some sentiment \<Rightarrow> \<not> truthy (JStr sentiment) \<or> sentiment = ''neutral''))"

text \<open>
  The classification client as the loop uses it: two methods that, given a comment, a
  language and the count of requests sent so far, return a result or throw.
  \<open>ollamaLLM\<close> is the instance routes.ts imports; its two methods catch whatever
  happens inside them and always return.
\<close>

record classification_client =
  cc_analyzeSentiment :: "string \<Rightarrow> string \<Rightarrow> nat \<Rightarrow> (error + OllamaSentimentResult) \<times> nat"
  cc_extractTopics :: "string \<Rightarrow> string \<Rightarrow> nat \<Rightarrow> (error + TopicResult) \<times> nat"

definition ollamaLLM :: "json_parser \<Rightarrow> endpoint \<Rightarrow> classification_client" where
  "ollamaLLM JSON_parse ep =
     \<lparr>cc_analyzeSentiment =
        (\<lambda>comment language n.
           case OllamaLLM_analyzeSentiment JSON_parse ep comment language n of
             (r, n') \<Rightarrow> (Inr r, n')),
      cc_extractTopics =
        (\<lambda>comment language n.
           case OllamaLLM_extractTopics JSON_parse ep comment language n of
             (r, n') \<Rightarrow> (Inr r, n'))\<rparr>"

text \<open>
  The body of the loop for one row: the inner \<^verbatim>\<open>try\<close> with its \<^verbatim>\<open>catch\<close>. Each of the
  three calls can throw; then the \<^verbatim>\<open>catch\<close> block runs, which only calls
  \<^verbatim>\<open>incrementProcessed\<close>. When none throws, \<^verbatim>\<open>incrementProcessed\<close> and the delay of
  100 ms follow.
\<close>

definition process_response ::
  "update_method option \<Rightarrow> classification_client \<Rightarrow> nps_response \<times> string option
     \<Rightarrow> world \<Rightarrow> world" where
  "process_response member client response w =
     (let comment = (case r_comment (fst response) of None \<Rightarrow> [] | Some c \<Rightarrow> c);
          language = (case str_or_null (r_language (fst response)) of
                        None \<Rightarrow> ''en'' | Some l \<Rightarrow> l)
      in case cc_analyzeSentiment client comment language (w_requests w) of
           (Inl e, n1) \<Rightarrow>
             w\<lparr>w_requests := n1, w_tracker := incrementProcessed (w_now w) (w_tracker w)\<rparr>
         | (Inr sentimentResult, n1) \<Rightarrow>
             (case cc_extractTopics client comment language n1 of
                (Inl e, n2) \<Rightarrow>
                  w\<lparr>w_requests := n2, w_tracker := incrementProcessed (w_now w) (w_tracker w)\<rparr>
              | (Inr topicsResult, n2) \<Rightarrow>
                  (case call_updateResponse member (r_id (fst response))
                          \<lparr>u_sentiment = js_or (osr_sentiment sentimentResult) (JStr ''neutral''),
                           u_sentiment_confidence = Fin 0.8,
                           u_topics = js_or (tr_topics topicsResult) (JArr [])\<rparr> (w_db w) of
                     Inl e \<Rightarrow>
                       w\<lparr>w_requests := n2,
                         w_tracker := incrementProcessed (w_now w) (w_tracker w)\<rparr>
                   | Inr db' \<Rightarrow>
                       w\<lparr>w_requests := n2, w_db := db',
                         w_tracker := incrementProcessed (w_now w) (w_tracker w),
                         w_now := w_now w + 100\<rparr>)))"

fun process_responses ::
  "update_method option \<Rightarrow> classification_client \<Rightarrow> (nps_response \<times> string option) list
     \<Rightarrow> world \<Rightarrow> world" where
  "process_responses member client [] w = w"
| "process_responses member client (response # rest) w =
     process_responses member client rest (process_response member client response w)"

text \<open>
  \<^verbatim>\<open>processCommentsWithAI\<close>, run to its end, for a given member \<^verbatim>\<open>LocalDB.updateResponse\<close>
  and a given client. The outer \<^verbatim>\<open>catch\<close> logs what the scan throws and returns.
\<close>

definition processCommentsWithAI_with ::
  "update_method option \<Rightarrow> classification_client \<Rightarrow> world \<Rightarrow> world" where
  "processCommentsWithAI_with member client w =
     (case getResponses (w_db w) of
        Inl e \<Rightarrow> w
      | Inr responses \<Rightarrow>
          (let commentsToProcess = filter needs_processing responses
           in if length commentsToProcess = 0 then w
              else
                (let w1 = w\<lparr>w_tracker :=
                             startProcessing (int (length commentsToProcess)) (w_now w) (w_tracker w)\<rparr>;
                     w2 = process_responses member client commentsToProcess w1
                 in w2\<lparr>w_tracker := completeProcessing (w_now w2) (w_tracker w2)\<rparr>)))"

text \<open>
  The function as the repository has it: with the class \<^verbatim>\<open>LocalDB\<close> of local-db.ts and
  the client \<^verbatim>\<open>ollamaLLM\<close>.
\<close>

definition processCommentsWithAI :: "json_parser \<Rightarrow> endpoint \<Rightarrow> world \<Rightarrow> world" where
  "processCommentsWithAI JSON_parse ep w =
     processCommentsWithAI_with LocalDB_updateResponse (ollamaLLM JSON_parse ep) w"

text \<open>
  The handler of \<^verbatim>\<open>POST /api/process-ai\<close>. It calls \<^verbatim>\<open>processCommentsWithAI()\<close> without
  awaiting it and answers at once; the call returns a promise and throws nothing, so the
  handler's own \<^verbatim>\<open>catch\<close> (status 500) is not reached from it. The world returned is the
  one the run leaves when it has ended.
\<close>

record http_response =
  res_status :: nat
  res_body :: jsval

definition process_ai_handler :: "json_parser \<Rightarrow> endpoint \<Rightarrow> world \<Rightarrow> http_response \<times> world" where
  "process_ai_handler JSON_parse ep w =
     (if isProcessing (w_tracker w) then
        (\<lparr>res_status = 409,
          res_body = JObj [(''success'', JBool False),
                           (''error'', JStr ''AI processing is already in progress'')]\<rparr>, w)
      else
        (\<lparr>res_status = 200,
          res_body = JObj [(''success'', JBool True),
                           (''message'', JStr ''AI processing started in background'')]\<rparr>,
         processCommentsWithAI JSON_parse ep w))"

section \<open>Concrete inputs\<close>

text \<open>
  For the concrete runs below: \<^verbatim>\<open>JSON.parse\<close> on the texts of one object whose members
  are strings without escapes, numbers without exponent, \<^verbatim>\<open>true\<close>, \<^verbatim>\<open>false\<close> and
  \<^verbatim>\<open>null\<close>. On these texts it returns what the built-in returns; every other text is
  rejected here, also where the built-in accepts it (nested values, escapes, exponents,
  texts that are not an object). The general theorems hold for every parser.
\<close>

definition is_json_ws :: "char \<Rightarrow> bool" where
  "is_json_ws c = (of_char c \<in> {9, 10, 13, 32 :: nat})"

definition skip_ws :: "string \<Rightarrow> string" where
  "skip_ws s = dropWhile is_json_ws s"

definition is_digit :: "char \<Rightarrow> bool" where
  "is_digit c = (48 \<le> (of_char c :: nat) \<and> (of_char c :: nat) \<le> 57)"

definition digits_value :: "string \<Rightarrow> nat" where
  "digits_value ds = foldl (\<lambda>a c. 10 * a + (of_char c - 48)) 0 ds"

definition parse_json_string :: "string \<Rightarrow> (string \<times> string) option" where
  "parse_json_string s =
     (case s of
        [] \<Rightarrow> None
      | c # cs \<Rightarrow>
          if c \<noteq> CHR 0x22 then None
          else
            (let body = takeWhile (\<lambda>x. x \<noteq> CHR 0x22) cs;
                 rest = dropWhile (\<lambda>x. x \<noteq> CHR 0x22) cs
             in if rest = [] \<or> list_ex (\<lambda>x. x = CHR 0x5C \<or> (of_char x :: nat) < 32) body
                then None else Some (body, tl rest)))"

definition parse_json_number :: "string \<Rightarrow> (jsnum \<times> string) option" where
  "parse_json_number s =
     (let negative = (case s of [] \<Rightarrow> False | c # cs \<Rightarrow> c = CHR ''-'');
          s1 = (if negative then tl s else s);
          sign = (if negative then - 1 else 1 :: real);
          whole = takeWhile is_digit s1;
          s2 = dropWhile is_digit s1
      in if whole = [] \<or> (length whole > 1 \<and> hd whole = CHR ''0'') then None
         else
           (case s2 of
              [] \<Rightarrow> Some (Fin (sign * real (digits_value whole)), [])
            | c # s3 \<Rightarrow>
                if c = CHR ''.'' then
                  (let frac = takeWhile is_digit s3; s4 = dropWhile is_digit s3
                   in if frac = [] then None
                      else Some (Fin (sign * (real (digits_value whole)
                                   + real (digits_value frac) / 10 ^ length frac)), s4))
                else Some (Fin (sign * real (digits_value whole)), s2)))"

definition parse_json_value :: "string \<Rightarrow> (jsval \<times> string) option" where
  "parse_json_value s =
     (if prefix [CHR 0x22] s then
        (case parse_json_string s of None \<Rightarrow> None | Some (body, rest) \<Rightarrow> Some (JStr body, rest))
      else if prefix ''true'' s then Some (JBool True, drop 4 s)
      else if prefix ''false'' s then Some (JBool False, drop 5 s)
      else if prefix ''null'' s then Some (JNull, drop 4 s)
      else (case parse_json_number s of None \<Rightarrow> None | Some (n, rest) \<Rightarrow> Some (JNum n, rest)))"

fun parse_json_members :: "nat \<Rightarrow> string \<Rightarrow> (string \<times> jsval) list option" where
  "parse_json_members 0 s = None"
| "parse_json_members (Suc fuel) s =
     (case parse_json_string s of
        None \<Rightarrow> None
      | Some (key, s1) \<Rightarrow>
          (case skip_ws s1 of
             [] \<Rightarrow> None
           | c # s2 \<Rightarrow>
               if c \<noteq> CHR '':'' then None
               else
                 (case parse_json_value (skip_ws s2) of
                    None \<Rightarrow> None
                  | Some (v, s3) \<Rightarrow>
                      (case skip_ws s3 of
                         [] \<Rightarrow> None
                       | d # s4 \<Rightarrow>
                           if d = CHR '','' then
                             (case parse_json_members fuel (skip_ws s4) of
                                None \<Rightarrow> None
                              | Some kvs \<Rightarrow> Some ((key, v) # kvs))
                           else if d = CHR ''}'' \<and> skip_ws s4 = [] then Some [(key, v)]
                           else None))))"

definition JSON_parse_flat :: json_parser where
  "JSON_parse_flat text =
     (case skip_ws text of
        [] \<Rightarrow> Inl SyntaxError
      | c # s1 \<Rightarrow>
          if c \<noteq> CHR ''{'' then Inl SyntaxError
          else
            (case skip_ws s1 of
               [] \<Rightarrow> Inl SyntaxError
             | d # s2 \<Rightarrow>
                 if d = CHR ''}'' \<and> skip_ws s2 = [] then Inr (JObj [])
                 else
                   (case parse_json_members (length text) (d # s2) of
                      None \<Rightarrow> Inl SyntaxError
                    | Some kvs \<Rightarrow> Inr (JObj kvs))))"

text \<open>
  A stand-in for the conversion of strings, arrays and objects to numbers, for concrete
  runs that do not reach it.
\<close>

definition conv_unreached :: "jsval \<Rightarrow> error + jsnum" where
  "conv_unreached v = Inr NaN"



definition reply_positive :: string where
  \<open>reply_positive = ''{"sentiment":"positive"}''\<close>

definition reply_prose :: string where
  "reply_prose = ''I think it is positive.''"


definition endpoint_always :: "string \<Rightarrow> endpoint" where
  "endpoint_always r n p = Reply r"

definition endpoint_down :: endpoint where
  "endpoint_down n p = Failed"

text \<open>A database holding one row, inserted by \<^verbatim>\<open>insertResponse\<close> with no sentiment.\<close>

definition sample_data :: insert_data where
  "sample_data =
     \<lparr>d_rating = 3, d_comment = Some ''Great app'', d_language = Some ''en'',
      d_date = ''2024-01-15'', d_customer_id = None, d_visitor_id = None, d_platform = None,
      d_sentiment = None, d_sentiment_confidence = None\<rparr>"

definition zero_data :: insert_data where
  "zero_data =
     \<lparr>d_rating = 3, d_comment = Some [], d_language = Some ''en'',
      d_date = ''2024-01-15'', d_customer_id = None, d_visitor_id = None, d_platform = None,
      d_sentiment = Some ''neutral'', d_sentiment_confidence = Some (Fin 0)\<rparr>"

definition empty_db :: db_state where
  "empty_db =
     \<lparr>db_open = True, db_nps_responses = [], db_topic_mentions = [],
      db_seq_responses = 0, db_seq_topics = 0\<rparr>"

definition sample_row :: nps_response where
  "sample_row =
     \<lparr>r_id = 1, r_rating = 3, r_comment = Some ''Great app'', r_language = Some ''en'',
      r_date = ''2024-01-15'', r_customer_id = None, r_visitor_id = None, r_platform = None,
      r_sentiment = None, r_sentiment_confidence = None,
      r_created_at = ''2024-01-15 10:00:00'', r_updated_at = ''2024-01-15 10:00:00''\<rparr>"

definition sample_db :: db_state where
  "sample_db =
     \<lparr>db_open = True, db_nps_responses = [sample_row], db_topic_mentions = [],
      db_seq_responses = 1, db_seq_topics = 0\<rparr>"

definition done_row :: nps_response where
  "done_row =
     \<lparr>r_id = 2, r_rating = 9, r_comment = Some ''Love it'', r_language = Some ''en'',
      r_date = ''2024-01-16'', r_customer_id = None, r_visitor_id = None, r_platform = None,
      r_sentiment = Some ''positive'', r_sentiment_confidence = None,
      r_created_at = ''2024-01-16 10:00:00'', r_updated_at = ''2024-01-16 10:00:00''\<rparr>"

definition neutral_row :: nps_response where
  "neutral_row =
     \<lparr>r_id = 3, r_rating = 5, r_comment = Some ''App crashes'', r_language = None,
      r_date = ''2024-01-17'', r_customer_id = None, r_visitor_id = None, r_platform = None,
      r_sentiment = Some ''neutral'', r_sentiment_confidence = None,
      r_created_at = ''2024-01-17 10:00:00'', r_updated_at = ''2024-01-17 10:00:00''\<rparr>"

definition blank_row :: nps_response where
  "blank_row =
     \<lparr>r_id = 4, r_rating = 7, r_comment = Some '' '', r_language = Some ''en'',
      r_date = ''2024-01-18'', r_customer_id = None, r_visitor_id = None, r_platform = None,
      r_sentiment = None, r_sentiment_confidence = None,
      r_created_at = ''2024-01-18 10:00:00'', r_updated_at = ''2024-01-18 10:00:00''\<rparr>"

definition done_db :: db_state where
  "done_db =
     \<lparr>db_open = True, db_nps_responses = [done_row], db_topic_mentions = [],
      db_seq_responses = 2, db_seq_topics = 0\<rparr>"

definition three_db :: db_state where
  "three_db =
     \<lparr>db_open = True, db_nps_responses = [sample_row, done_row, neutral_row],
      db_topic_mentions = [], db_seq_responses = 3, db_seq_topics = 0\<rparr>"

text \<open>
  A stand-in for a member \<^verbatim>\<open>updateResponse\<close> that throws at row 3 and succeeds, writing
  nothing, at every other row: for a run in which persistence fails at some rows only.
\<close>

definition updateResponse_row3_throws :: update_method where
  "updateResponse_row3_throws rid u db = (if rid = 3 then Inl SqliteError else Inr db)"

text \<open>
  A stand-in for a client whose \<^verbatim>\<open>analyzeSentiment\<close> throws, after one request, for the
  comment \<^verbatim>\<open>App crashes\<close> and returns \<^verbatim>\<open>positive\<close> for every other comment: for a run
  in which classification fails at some rows only.
\<close>

definition client_throws_on_crashes :: classification_client where
  "client_throws_on_crashes =
     \<lparr>cc_analyzeSentiment =
        (\<lambda>comment language n.
           if comment = ''App crashes'' then (Inl FetchError, Suc n)
           else (Inr \<lparr>osr_sentiment = JStr ''positive'', osr_explanation = JUndefined\<rparr>, Suc n)),
      cc_extractTopics = (\<lambda>comment language n. (Inr (general_topic 1), Suc n))\<rparr>"

text \<open>An endpoint that fails on the first two requests and replies from then on.\<close>

definition endpoint_flaky :: endpoint where
  "endpoint_flaky n p = (if n < 2 then Failed else Reply reply_positive)"

definition world_of :: "db_state \<Rightarrow> world" where
  "world_of db = \<lparr>w_tracker = aiTracker_init, w_db = db, w_requests = 0, w_now = 0\<rparr>"

text \<open>
  The tracker as a completed run over one row leaves it, with a database in which no
  row is pending.
\<close>

definition world_after_a_run :: world where
  "world_after_a_run =
     \<lparr>w_tracker = tracker_run [(0, StartProcessing 1), (0, IncrementProcessed),
                     (0, CompleteProcessing)] aiTracker_init,
      w_db = done_db, w_requests = 2, w_now = 0\<rparr>"

section \<open>Theorems\<close>

subsection \<open>Progress Tracker\<close>

lemma tracker_run_append:
  "tracker_run (xs @ ys) s = tracker_run ys (tracker_run xs s)"
  by (simp add: tracker_run_def)

lemma tracker_run_snoc:
  "tracker_run (xs @ [c]) s = tracker_step (tracker_run xs s) c"
  by (simp add: tracker_run_def)

lemma processed_nonneg_step:
  assumes "0 \<le> st_processed s"
  shows "0 \<le> st_processed (tracker_step s c)"
proof (cases c)
  case (Pair now k)
  with assms show ?thesis
    by (cases k)
       (simp_all add: startProcessing_def incrementProcessed_def completeProcessing_def)
qed

lemma processed_nonneg_run:
  "0 \<le> st_processed s \<Longrightarrow> 0 \<le> st_processed (tracker_run calls s)"
proof (induction calls rule: rev_induct)
  case Nil
  then show ?case by (simp add: tracker_run_def)
next
  case (snoc c calls)
  then show ?case by (simp add: tracker_run_snoc processed_nonneg_step)
qed

lemma inProgress_run:
  "st_inProgress (tracker_run calls s) =
     (case rev (filter (\<lambda>c. is_start c \<or> is_complete c) calls) of
        [] \<Rightarrow> st_inProgress s
      | c # cs \<Rightarrow> is_start c)"
proof (induction calls rule: rev_induct)
  case Nil
  then show ?case by (simp add: tracker_run_def)
next
  case (snoc c calls)
  obtain now k where c: "c = (now, k)" by (cases c)
  show ?case
  proof (cases k)
    case (StartProcessing n)
    with c show ?thesis
      by (simp add: tracker_run_snoc startProcessing_def)
  next
    case IncrementProcessed
    with c show ?thesis
      using snoc by (simp add: tracker_run_snoc incrementProcessed_def)
  next
    case CompleteProcessing
    with c show ?thesis
      by (simp add: tracker_run_snoc completeProcessing_def)
  qed
qed

lemma no_start_run:
  "\<not> list_ex is_start calls \<Longrightarrow>
     st_total (tracker_run calls s) = st_total s \<and>
     st_processed (tracker_run calls s) = st_processed s + int (length (filter is_increment calls))"
proof (induction calls rule: rev_induct)
  case Nil
  then show ?case by (simp add: tracker_run_def)
next
  case (snoc c calls)
  then have ih:
    "st_total (tracker_run calls s) = st_total s"
    "st_processed (tracker_run calls s) = st_processed s + int (length (filter is_increment calls))"
    by simp_all
  from snoc.prems have nc: "\<not> is_start c" by simp
  obtain now k where c: "c = (now, k)" by (cases c)
  show ?case
  proof (cases k)
    case (StartProcessing n)
    with c nc show ?thesis by simp
  next
    case IncrementProcessed
    with c show ?thesis
      using ih by (simp add: tracker_run_snoc incrementProcessed_def)
  next
    case CompleteProcessing
    with c show ?thesis
      using ih by (simp add: tracker_run_snoc completeProcessing_def)
  qed
qed

lemma start_then_rest:
  assumes "\<not> list_ex is_start rest"
  shows "st_total (tracker_run (calls @ [(now, StartProcessing n)] @ rest) s) = n \<and>
         st_processed (tracker_run (calls @ [(now, StartProcessing n)] @ rest) s) =
           int (length (filter is_increment rest))"
proof -
  let ?s1 = "tracker_run (calls @ [(now, StartProcessing n)]) s"
  have s1: "st_total ?s1 = n" "st_processed ?s1 = 0"
    by (simp_all add: tracker_run_snoc startProcessing_def)
  have "tracker_run (calls @ [(now, StartProcessing n)] @ rest) s = tracker_run rest ?s1"
    using tracker_run_append [of "calls @ [(now, StartProcessing n)]" rest s] by simp
  then show ?thesis
    using no_start_run [OF assms, of ?s1] s1 by simp
qed

text \<open>
  C8 (as stated, refuted). The tracker has no guard on \<^verbatim>\<open>incrementProcessed\<close>: after
  \<^verbatim>\<open>startProcessing(1)\<close> and two calls of \<^verbatim>\<open>incrementProcessed()\<close> the status holds
  \<^verbatim>\<open>processed = 2\<close> and \<^verbatim>\<open>total = 1\<close>, so \<^verbatim>\<open>processed <= total\<close> does not hold after
  every sequence of calls.
\<close>

theorem tracker_processed_exceeds_total:
  "st_processed (tracker_run [(0, StartProcessing 1), (1, IncrementProcessed),
       (2, IncrementProcessed)] aiTracker_init) = 2 \<and>
   st_total (tracker_run [(0, StartProcessing 1), (1, IncrementProcessed),
       (2, IncrementProcessed)] aiTracker_init) = 1 \<and>
   \<not> st_processed (tracker_run [(0, StartProcessing 1), (1, IncrementProcessed),
       (2, IncrementProcessed)] aiTracker_init)
     \<le> st_total (tracker_run [(0, StartProcessing 1), (1, IncrementProcessed),
       (2, IncrementProcessed)] aiTracker_init)"
  by (simp add: tracker_run_def aiTracker_init_def startProcessing_def incrementProcessed_def)

text \<open>
  C8 (amended). After any sequence of \<^verbatim>\<open>startProcessing\<close> / \<^verbatim>\<open>incrementProcessed\<close> /
  \<^verbatim>\<open>completeProcessing\<close> calls from the initial state: \<^verbatim>\<open>0 <= processed\<close>;
  \<^verbatim>\<open>inProgress\<close> is true exactly when the last call among the starts and completions
  is a start; each \<^verbatim>\<open>startProcessing(n)\<close> resets \<^verbatim>\<open>processed\<close> to 0 and \<^verbatim>\<open>total\<close> to \<open>n\<close>
  and sets \<^verbatim>\<open>inProgress\<close>; and when the calls that follow the last \<^verbatim>\<open>startProcessing(n)\<close>
  hold at most \<open>n\<close> calls of \<^verbatim>\<open>incrementProcessed\<close>, \<^verbatim>\<open>processed\<close> is their number and
  \<^verbatim>\<open>processed <= total\<close>.
\<close>

theorem tracker_invariant:
  "0 \<le> st_processed (tracker_run calls aiTracker_init) \<and>
   st_inProgress (tracker_run calls aiTracker_init) = run_open calls \<and>
   st_processed (tracker_run (calls @ [(now, StartProcessing n)]) aiTracker_init) = 0 \<and>
   st_total (tracker_run (calls @ [(now, StartProcessing n)]) aiTracker_init) = n \<and>
   st_inProgress (tracker_run (calls @ [(now, StartProcessing n)]) aiTracker_init) \<and>
   (\<not> list_ex is_start rest \<and> int (length (filter is_increment rest)) \<le> n \<longrightarrow>
      st_total (tracker_run (calls @ [(now, StartProcessing n)] @ rest) aiTracker_init) = n \<and>
      st_processed (tracker_run (calls @ [(now, StartProcessing n)] @ rest) aiTracker_init) =
        int (length (filter is_increment rest)) \<and>
      st_processed (tracker_run (calls @ [(now, StartProcessing n)] @ rest) aiTracker_init)
        \<le> st_total (tracker_run (calls @ [(now, StartProcessing n)] @ rest) aiTracker_init))"
proof -
  have nonneg: "0 \<le> st_processed (tracker_run calls aiTracker_init)"
    by (rule processed_nonneg_run) (simp add: aiTracker_init_def)
  have flag: "st_inProgress (tracker_run calls aiTracker_init) = run_open calls"
    by (simp add: inProgress_run run_open_def aiTracker_init_def split: list.splits)
  have reset:
    "st_processed (tracker_run (calls @ [(now, StartProcessing n)]) aiTracker_init) = 0"
    "st_total (tracker_run (calls @ [(now, StartProcessing n)]) aiTracker_init) = n"
    "st_inProgress (tracker_run (calls @ [(now, StartProcessing n)]) aiTracker_init)"
    by (simp_all add: tracker_run_snoc startProcessing_def)
  have bounded:
    "st_total (tracker_run (calls @ [(now, StartProcessing n)] @ rest) aiTracker_init) = n \<and>
     st_processed (tracker_run (calls @ [(now, StartProcessing n)] @ rest) aiTracker_init) =
       int (length (filter is_increment rest)) \<and>
     st_processed (tracker_run (calls @ [(now, StartProcessing n)] @ rest) aiTracker_init)
       \<le> st_total (tracker_run (calls @ [(now, StartProcessing n)] @ rest) aiTracker_init)"
    if "\<not> list_ex is_start rest" "int (length (filter is_increment rest)) \<le> n"
    using start_then_rest [OF that(1), of calls now n aiTracker_init] that(2) by simp
  from nonneg flag reset bounded show ?thesis by blast
qed

theorem tracker_invariant_witness:
  "\<not> list_ex is_start [(6, IncrementProcessed), (7, IncrementProcessed), (8, CompleteProcessing)] \<and>
   int (length (filter is_increment
      [(6, IncrementProcessed), (7, IncrementProcessed), (8::nat, CompleteProcessing)])) \<le> 2 \<and>
   st_total (tracker_run ([(1, IncrementProcessed)] @ [(5, StartProcessing 2)] @
      [(6, IncrementProcessed), (7, IncrementProcessed), (8, CompleteProcessing)]) aiTracker_init) = 2 \<and>
   st_processed (tracker_run ([(1, IncrementProcessed)] @ [(5, StartProcessing 2)] @
      [(6, IncrementProcessed), (7, IncrementProcessed), (8, CompleteProcessing)]) aiTracker_init) = 2 \<and>
   \<not> st_inProgress (tracker_run ([(1, IncrementProcessed)] @ [(5, StartProcessing 2)] @
      [(6, IncrementProcessed), (7, IncrementProcessed), (8, CompleteProcessing)]) aiTracker_init)"
  using tracker_invariant [of "[(1, IncrementProcessed)] @ [(5, StartProcessing 2)] @
      [(6, IncrementProcessed), (7, IncrementProcessed), (8, CompleteProcessing)]"
      5 2 "[(6, IncrementProcessed), (7, IncrementProcessed), (8, CompleteProcessing)]"]
    tracker_invariant [of "[(1, IncrementProcessed)]" 5 2
      "[(6, IncrementProcessed), (7, IncrementProcessed), (8, CompleteProcessing)]"]
  by (simp add: run_open_def)

subsection \<open>Response groups\<close>

text \<open>
  C9. For every integer rating \<open>r\<close> (so for each of 0..10) the derived response group is
  Promoter iff \<open>r \<ge> 9\<close>, Passive iff \<open>7 \<le> r \<le> 8\<close> and Detractor iff \<open>r \<le> 6\<close>; and the
  promoter / passive / detractor counts of the statistics routes are the numbers of
  ratings whose response group is Promoter / Passive / Detractor.
\<close>

theorem responseGroup_mapping:
  "(responseGroup r = Promoter \<longleftrightarrow> r \<ge> 9) \<and>
   (responseGroup r = Passive \<longleftrightarrow> 7 \<le> r \<and> r \<le> 8) \<and>
   (responseGroup r = Detractor \<longleftrightarrow> r \<le> 6) \<and>
   promoters ratings = length (filter (\<lambda>x. responseGroup x = Promoter) ratings) \<and>
   passives ratings = length (filter (\<lambda>x. responseGroup x = Passive) ratings) \<and>
   detractors ratings = length (filter (\<lambda>x. responseGroup x = Detractor) ratings)"
proof -
  have g: "(responseGroup x = Promoter \<longleftrightarrow> x \<ge> 9) \<and>
           (responseGroup x = Passive \<longleftrightarrow> 7 \<le> x \<and> x \<le> 8) \<and>
           (responseGroup x = Detractor \<longleftrightarrow> x \<le> 6)" for x
    by (simp add: responseGroup_def)
  have "promoters ratings = length (filter (\<lambda>x. responseGroup x = Promoter) ratings)"
    unfolding promoters_def using g by simp
  moreover have "passives ratings = length (filter (\<lambda>x. responseGroup x = Passive) ratings)"
    unfolding passives_def using g by simp
  moreover have "detractors ratings = length (filter (\<lambda>x. responseGroup x = Detractor) ratings)"
    unfolding detractors_def using g by simp
  ultimately show ?thesis using g by blast
qed

subsection \<open>Response Store\<close>

lemma str_or_null_eq:
  "str_or_null x = (if x = Some [] then None else x)"
  by (cases x) (simp_all add: str_or_null_def)

lemma num_or_null_eq:
  "num_or_null x = (if x = Some (Fin 0) \<or> x = Some NaN then None else x)"
  by (cases x) (auto simp: num_or_null_def)

text \<open>The sample database is what \<^verbatim>\<open>insertResponse\<close> makes of the empty one.\<close>

lemma sample_db_inserted:
  "insertResponse ''2024-01-15 10:00:00'' sample_data empty_db = Inr sample_db"
  by code_simp

lemma pair_in_map:
  "x \<in> set xs \<Longrightarrow> (x, f x) \<in> set (map (\<lambda>r. (r, f r)) xs)"
  by (induction xs) auto

text \<open>
  C10. On an open database \<^verbatim>\<open>insertResponse\<close> appends one row in which every optional
  member that is falsy (absent, the empty string, the number 0, NaN) is stored as NULL
  and every other one as given. In particular no inserted row holds the confidence 0 or
  the empty comment, and the row read back by \<^verbatim>\<open>getResponses\<close> is that row: a zero
  confidence does not survive the round trip through the Store.
\<close>

theorem insertResponse_falsy_null:
  assumes "db_open db"
  shows "\<exists>row. insertResponse now d db =
        Inr (db\<lparr>db_nps_responses := db_nps_responses db @ [row],
                db_seq_responses := Suc (db_seq_responses db)\<rparr>) \<and>
      r_id row = Suc (db_seq_responses db) \<and>
      r_rating row = d_rating d \<and> r_date row = d_date d \<and>
      r_comment row = (if d_comment d = Some [] then None else d_comment d) \<and>
      r_language row = (if d_language d = Some [] then None else d_language d) \<and>
      r_customer_id row = (if d_customer_id d = Some [] then None else d_customer_id d) \<and>
      r_visitor_id row = (if d_visitor_id d = Some [] then None else d_visitor_id d) \<and>
      r_platform row = (if d_platform d = Some [] then None else d_platform d) \<and>
      r_sentiment row = (if d_sentiment d = Some [] then None else d_sentiment d) \<and>
      r_sentiment_confidence row =
        (if d_sentiment_confidence d = Some (Fin 0) \<or> d_sentiment_confidence d = Some NaN
         then None else d_sentiment_confidence d) \<and>
      r_sentiment_confidence row \<noteq> Some (Fin 0) \<and>
      r_comment row \<noteq> Some [] \<and>
      (\<exists>rows. getResponses (db\<lparr>db_nps_responses := db_nps_responses db @ [row],
                db_seq_responses := Suc (db_seq_responses db)\<rparr>) = Inr rows \<and>
          (\<exists>topics. (row, topics) \<in> set rows))"
proof -
  define row where "row =
     \<lparr>r_id = Suc (db_seq_responses db), r_rating = d_rating d,
      r_comment = str_or_null (d_comment d), r_language = str_or_null (d_language d),
      r_date = d_date d, r_customer_id = str_or_null (d_customer_id d),
      r_visitor_id = str_or_null (d_visitor_id d), r_platform = str_or_null (d_platform d),
      r_sentiment = str_or_null (d_sentiment d),
      r_sentiment_confidence = num_or_null (d_sentiment_confidence d),
      r_created_at = now, r_updated_at = now\<rparr>"
  let ?db' = "db\<lparr>db_nps_responses := db_nps_responses db @ [row],
                db_seq_responses := Suc (db_seq_responses db)\<rparr>"
  have ins: "insertResponse now d db = Inr ?db'"
    using assms by (simp add: insertResponse_def row_def)
  have plain: "r_id row = Suc (db_seq_responses db)" "r_rating row = d_rating d"
    "r_date row = d_date d"
    by (simp_all add: row_def)
  have texts:
    "r_comment row = (if d_comment d = Some [] then None else d_comment d)"
    "r_language row = (if d_language d = Some [] then None else d_language d)"
    "r_customer_id row = (if d_customer_id d = Some [] then None else d_customer_id d)"
    "r_visitor_id row = (if d_visitor_id d = Some [] then None else d_visitor_id d)"
    "r_platform row = (if d_platform d = Some [] then None else d_platform d)"
    "r_sentiment row = (if d_sentiment d = Some [] then None else d_sentiment d)"
    unfolding row_def by (simp_all only: nps_response.simps str_or_null_eq)
  have conf: "r_sentiment_confidence row =
        (if d_sentiment_confidence d = Some (Fin 0) \<or> d_sentiment_confidence d = Some NaN
         then None else d_sentiment_confidence d)"
    unfolding row_def by (simp only: nps_response.simps num_or_null_eq)
  have nonzero: "r_sentiment_confidence row \<noteq> Some (Fin 0)"
    unfolding conf by simp
  have nonempty: "r_comment row \<noteq> Some []"
    unfolding texts(1) by simp
  have scan: "getResponses ?db' =
      Inr (map (\<lambda>r. (r, group_concat_topics (db_topic_mentions ?db') (r_id r)))
             (rev (sort_key r_date (rev (db_nps_responses ?db')))))"
    using assms by (simp add: getResponses_def)
  have "row \<in> set (rev (sort_key r_date (rev (db_nps_responses ?db'))))"
    by (simp add: set_insort_key)
  then have mem: "(row, group_concat_topics (db_topic_mentions ?db') (r_id row))
      \<in> set (map (\<lambda>r. (r, group_concat_topics (db_topic_mentions ?db') (r_id r)))
             (rev (sort_key r_date (rev (db_nps_responses ?db')))))"
    by (rule pair_in_map)
  from scan mem
  have reread: "\<exists>rows. getResponses ?db' = Inr rows \<and> (\<exists>topics. (row, topics) \<in> set rows)"
    by blast
  from ins plain texts conf nonzero nonempty reread show ?thesis
    by blast
qed

text \<open>
  C10 at a concrete input: the row of \<^verbatim>\<open>/api/csv\<close> for a record without comment and
  confidence, \<^verbatim>\<open>{comment: '', sentiment: 'neutral', sentiment_confidence: 0}\<close>, is stored
  with NULL comment and NULL confidence.
\<close>

theorem insertResponse_falsy_null_witness:
  "db_open empty_db \<and>
   (\<exists>row. insertResponse ''2024-01-15 10:00:00'' zero_data empty_db =
        Inr (empty_db\<lparr>db_nps_responses := [row], db_seq_responses := 1\<rparr>) \<and>
      r_comment row = None \<and> r_sentiment_confidence row = None \<and>
      r_sentiment row = Some ''neutral'')"
proof -
  have op: "db_open empty_db" by (simp add: empty_db_def)
  from insertResponse_falsy_null [OF op, of "''2024-01-15 10:00:00''" zero_data]
  obtain row where
    ins: "insertResponse ''2024-01-15 10:00:00'' zero_data empty_db =
            Inr (empty_db\<lparr>db_nps_responses := db_nps_responses empty_db @ [row],
                          db_seq_responses := Suc (db_seq_responses empty_db)\<rparr>)"
    and c: "r_comment row = (if d_comment zero_data = Some [] then None else d_comment zero_data)"
    and s: "r_sentiment row = (if d_sentiment zero_data = Some [] then None else d_sentiment zero_data)"
    and k: "r_sentiment_confidence row =
              (if d_sentiment_confidence zero_data = Some (Fin 0) \<or>
                  d_sentiment_confidence zero_data = Some NaN
               then None else d_sentiment_confidence zero_data)"
    by blast
  have e: "db_nps_responses empty_db = []" "db_seq_responses empty_db = 0"
    by (simp_all add: empty_db_def)
  have "insertResponse ''2024-01-15 10:00:00'' zero_data empty_db =
          Inr (empty_db\<lparr>db_nps_responses := [row], db_seq_responses := 1\<rparr>)"
    using ins e by simp
  moreover have "r_comment row = None" using c by (simp add: zero_data_def)
  moreover have "r_sentiment_confidence row = None" using k by (simp add: zero_data_def)
  moreover have "r_sentiment row = Some ''neutral''" using s by (simp add: zero_data_def)
  ultimately show ?thesis using op by blast
qed

subsection \<open>Classification Client\<close>

lemma trim_blank:
  assumes "list_all is_space s"
  shows "trim s = []"
  using assms by (auto simp: trim_def list_all_iff dest: set_dropWhileD)

lemma trim_empty_iff: "trim s = [] \<longleftrightarrow> list_all is_space s"
proof
  assume t: "trim s = []"
  show "list_all is_space s"
  proof (cases "dropWhile is_space s")
    case Nil
    then show ?thesis by (simp add: list_all_iff)
  next
    case (Cons c cs)
    then have c: "\<not> is_space c" using hd_dropWhile [of is_space s] by auto
    from t have "dropWhile is_space (rev (dropWhile is_space s)) = []"
      by (simp add: trim_def)
    then have "\<forall>x \<in> set (dropWhile is_space s). is_space x"
      by simp
    with Cons c show ?thesis by simp
  qed
qed (rule trim_blank)

lemma blank_cases:
  "(\<not> truthy (JStr comment) \<or> length (trim comment) = 0) \<longleftrightarrow> list_all is_space comment"
  using trim_empty_iff [of comment] by (cases comment) (auto simp: trim_def)

lemma split_at_first_Some:
  "split_at_first w s = Some (a, b) \<Longrightarrow> s = a @ w @ b"
proof (induction s arbitrary: a b)
  case Nil
  then show ?case by (simp split: if_splits)
next
  case (Cons c cs)
  show ?case
  proof (cases "prefix w (c # cs)")
    case True
    with Cons.prems have "a = []" "b = drop (length w) (c # cs)" by simp_all
    with True show ?thesis by (auto simp: prefix_def)
  next
    case False
    with Cons.prems obtain a' where "split_at_first w cs = Some (a', b)" "a = c # a'"
      by (auto split: option.splits)
    with Cons.IH show ?thesis by simp
  qed
qed

lemma split_at_first_None:
  "split_at_first w s = None \<Longrightarrow> s \<noteq> a @ w @ b"
proof (induction s arbitrary: a)
  case Nil
  then show ?case by (simp split: if_splits)
next
  case (Cons c cs)
  then have np: "\<not> prefix w (c # cs)" and rec: "split_at_first w cs = None"
    by (auto split: if_splits option.splits)
  show ?case
  proof (cases a)
    case Nil
    with np show ?thesis by (auto simp: prefix_def)
  next
    case (Cons x xs)
    with Cons.IH [OF rec, of xs] show ?thesis by auto
  qed
qed

lemma split_at_first_shortest:
  "split_at_first w s = Some (a', b') \<Longrightarrow> s = a @ w @ b \<Longrightarrow> length a' \<le> length a"
proof (induction s arbitrary: a a')
  case Nil
  then show ?case by (simp split: if_splits)
next
  case (Cons c cs)
  show ?case
  proof (cases "prefix w (c # cs)")
    case True
    with Cons.prems(1) have "a' = []" by simp
    then show ?thesis by simp
  next
    case False
    with Cons.prems(1) obtain a'' where rec: "split_at_first w cs = Some (a'', b')" "a' = c # a''"
      by (auto split: option.splits)
    from False Cons.prems(2) obtain a2 where a: "a = c # a2" "cs = a2 @ w @ b"
      by (cases a) (auto simp: prefix_def)
    from Cons.IH [OF rec(1) a(2)] rec(2) a(1) show ?thesis by simp
  qed
qed

lemma drop_append_left:
  "n \<le> length xs \<Longrightarrow> drop n (xs @ ys) = drop n xs @ ys"
  by simp

lemma split_at_first_finds:
  assumes "s = a @ w @ b"
  shows "\<exists>a' b'. split_at_first w s = Some (a', b') \<and> length a' \<le> length a"
proof (cases "split_at_first w s")
  case None
  with split_at_first_None [of w s a b] assms show ?thesis by simp
next
  case (Some p)
  then obtain a' b' where "split_at_first w s = Some (a', b')" by (cases p) simp
  with split_at_first_shortest [OF this assms] show ?thesis by blast
qed

text \<open>
  Both patterns find an object in a text exactly when the text holds a \<^verbatim>\<open>{\<close> with a
  \<^verbatim>\<open>}\<close> somewhere after it.
\<close>

lemma match_object_lazy_None_iff:
  "match_object_lazy s = None \<longleftrightarrow> \<not> (\<exists>a b c. s = a @ ''{'' @ b @ ''}'' @ c)"
proof
  assume m: "match_object_lazy s = None"
  show "\<not> (\<exists>a b c. s = a @ ''{'' @ b @ ''}'' @ c)"
  proof
    assume "\<exists>a b c. s = a @ ''{'' @ b @ ''}'' @ c"
    then obtain a b c where s: "s = a @ ''{'' @ (b @ ''}'' @ c)" by auto
    from split_at_first_finds [OF s] obtain a' b' where
      f: "split_at_first ''{'' s = Some (a', b')" and le: "length a' \<le> length a" by blast
    from split_at_first_Some [OF f] have "b' = drop (Suc (length a')) s" by simp
    also have "s = (a @ ''{'') @ (b @ ''}'' @ c)" using s by simp
    also have "drop (Suc (length a')) ((a @ ''{'') @ (b @ ''}'' @ c)) =
        drop (Suc (length a')) (a @ ''{'') @ (b @ ''}'' @ c)"
      using le by (intro drop_append_left) simp
    finally have "b' = (drop (Suc (length a')) (a @ ''{'') @ b) @ ''}'' @ c" by simp
    with split_at_first_None [of "''}''" b' "drop (Suc (length a')) (a @ ''{'') @ b" c]
    have "split_at_first ''}'' b' \<noteq> None" by blast
    with m f show False by (auto simp: match_object_lazy_def split: option.splits)
  qed
next
  assume n: "\<not> (\<exists>a b c. s = a @ ''{'' @ b @ ''}'' @ c)"
  show "match_object_lazy s = None"
  proof (rule ccontr)
    assume "match_object_lazy s \<noteq> None"
    then obtain a b c d where f: "split_at_first ''{'' s = Some (a, b)"
      "split_at_first ''}'' b = Some (c, d)"
      by (auto simp: match_object_lazy_def split: option.splits)
    from split_at_first_Some [OF f(1)] split_at_first_Some [OF f(2)]
    have "s = a @ ''{'' @ c @ ''}'' @ d" by simp
    with n show False by blast
  qed
qed

lemma match_object_greedy_None_iff:
  "match_object_greedy s = None \<longleftrightarrow> \<not> (\<exists>a b c. s = a @ ''{'' @ b @ ''}'' @ c)"
proof
  assume m: "match_object_greedy s = None"
  show "\<not> (\<exists>a b c. s = a @ ''{'' @ b @ ''}'' @ c)"
  proof
    assume "\<exists>a b c. s = a @ ''{'' @ b @ ''}'' @ c"
    then obtain a b c where s: "s = a @ ''{'' @ (b @ ''}'' @ c)" by auto
    from split_at_first_finds [OF s] obtain a' b' where
      f: "split_at_first ''{'' s = Some (a', b')" and le: "length a' \<le> length a" by blast
    from split_at_first_Some [OF f] have "b' = drop (Suc (length a')) s" by simp
    also have "s = (a @ ''{'') @ (b @ ''}'' @ c)" using s by simp
    also have "drop (Suc (length a')) ((a @ ''{'') @ (b @ ''}'' @ c)) =
        drop (Suc (length a')) (a @ ''{'') @ (b @ ''}'' @ c)"
      using le by (intro drop_append_left) simp
    finally have "b' = (drop (Suc (length a')) (a @ ''{'') @ b) @ ''}'' @ c" by simp
    then have "rev b' = rev c @ ''}'' @ rev (drop (Suc (length a')) (a @ ''{'') @ b)" by simp
    with split_at_first_None [of "''}''" "rev b'" "rev c"
        "rev (drop (Suc (length a')) (a @ ''{'') @ b)"]
    have "split_at_first ''}'' (rev b') \<noteq> None" by blast
    with m f show False by (auto simp: match_object_greedy_def split: option.splits)
  qed
next
  assume n: "\<not> (\<exists>a b c. s = a @ ''{'' @ b @ ''}'' @ c)"
  show "match_object_greedy s = None"
  proof (rule ccontr)
    assume "match_object_greedy s \<noteq> None"
    then obtain a b c d where f: "split_at_first ''{'' s = Some (a, b)"
      "split_at_first ''}'' (rev b) = Some (c, d)"
      by (auto simp: match_object_greedy_def split: option.splits)
    from split_at_first_Some [OF f(2)] have "rev (rev b) = rev (c @ ''}'' @ d)" by simp
    then have "b = rev d @ ''}'' @ rev c" by simp
    with split_at_first_Some [OF f(1)] have "s = a @ ''{'' @ rev d @ ''}'' @ rev c" by simp
    with n show False by blast
  qed
qed


lemma keyword_analysis_shape:
  "sr_sentiment (keyword_analysis comment) \<in> {JStr ''positive'', JStr ''negative'', JStr ''neutral''} \<and>
   in_unit_interval (sr_confidence (keyword_analysis comment))"
  by (simp add: keyword_analysis_def Let_def)






text \<open>
  C7 (as stated, refuted). The client that routes.ts imports, \<^verbatim>\<open>OllamaLLM\<close>, answers the
  empty comment with \<^verbatim>\<open>{sentiment: 'neutral', explanation: 'Empty comment'}\<close>: the
  result has no \<^verbatim>\<open>confidence\<close> member, so reading it gives \<^verbatim>\<open>undefined\<close>, not 0.
\<close>

theorem ollama_empty_has_no_confidence:
  "OllamaLLM_analyzeSentiment JSON_parse_flat endpoint_down [] ''en'' 0 =
     (\<lparr>osr_sentiment = JStr ''neutral'', osr_explanation = JStr ''Empty comment''\<rparr>, 0) \<and>
   get_prop (OllamaSentimentResult_object
      (fst (OllamaLLM_analyzeSentiment JSON_parse_flat endpoint_down [] ''en'' 0))) ''confidence''
     = Inr JUndefined \<and>
   get_prop (OllamaSentimentResult_object
      (fst (OllamaLLM_analyzeSentiment JSON_parse_flat endpoint_down [] ''en'' 0))) ''confidence''
     \<noteq> Inr (JNum (Fin 0))"
  by code_simp

text \<open>
  C7 (amended). For the empty comment and for any comment of white space only,
  \<^verbatim>\<open>LocalLLM.analyzeSentiment\<close> returns
  \<^verbatim>\<open>{sentiment: 'neutral', confidence: 0, explanation: 'Empty comment'}\<close> and
  \<^verbatim>\<open>OllamaLLM.analyzeSentiment\<close> returns
  \<^verbatim>\<open>{sentiment: 'neutral', explanation: 'Empty comment'}\<close>, with no confidence member;
  neither sends a request to the inference endpoint (the count of requests is
  unchanged, whatever the endpoint, the parser and the language are).
\<close>

theorem empty_comment_short_circuit:
  assumes "list_all is_space comment"
  shows "LocalLLM_analyzeSentiment JSON_parse conv ep comment language n =
       (\<lparr>sr_sentiment = JStr ''neutral'', sr_confidence = Fin 0,
         sr_explanation = JStr ''Empty comment''\<rparr>, n) \<and>
     OllamaLLM_analyzeSentiment JSON_parse ep comment language n =
       (\<lparr>osr_sentiment = JStr ''neutral'', osr_explanation = JStr ''Empty comment''\<rparr>, n) \<and>
     get_prop (SentimentResult_object
         (fst (LocalLLM_analyzeSentiment JSON_parse conv ep comment language n))) ''confidence''
       = Inr (JNum (Fin 0)) \<and>
     get_prop (OllamaSentimentResult_object
         (fst (OllamaLLM_analyzeSentiment JSON_parse ep comment language n))) ''confidence''
       = Inr JUndefined"
proof -
  from assms blank_cases [of comment]
  have blank: "\<not> truthy (JStr comment) \<or> length (trim comment) = 0" by simp
  have loc: "LocalLLM_analyzeSentiment JSON_parse conv ep comment language n =
       (\<lparr>sr_sentiment = JStr ''neutral'', sr_confidence = Fin 0,
         sr_explanation = JStr ''Empty comment''\<rparr>, n)"
    using blank by (simp add: LocalLLM_analyzeSentiment_def)
  have oll: "OllamaLLM_analyzeSentiment JSON_parse ep comment language n =
       (\<lparr>osr_sentiment = JStr ''neutral'', osr_explanation = JStr ''Empty comment''\<rparr>, n)"
    using blank by (simp add: OllamaLLM_analyzeSentiment_def)
  show ?thesis
    unfolding loc oll
    by (simp add: SentimentResult_object_def OllamaSentimentResult_object_def)
qed

text \<open>C7 (amended) at the comment of two spaces, with the endpoint down.\<close>

theorem empty_comment_short_circuit_witness:
  "list_all is_space ''  '' \<and>
   LocalLLM_analyzeSentiment JSON_parse_flat conv_unreached endpoint_down ''  '' ''en'' 0 =
     (\<lparr>sr_sentiment = JStr ''neutral'', sr_confidence = Fin 0,
       sr_explanation = JStr ''Empty comment''\<rparr>, 0) \<and>
   OllamaLLM_analyzeSentiment JSON_parse_flat endpoint_down ''  '' ''en'' 0 =
     (\<lparr>osr_sentiment = JStr ''neutral'', osr_explanation = JStr ''Empty comment''\<rparr>, 0)"
proof -
  have blank: "list_all is_space ''  ''" by code_simp
  from empty_comment_short_circuit [OF blank, of JSON_parse_flat conv_unreached endpoint_down "''en''" 0]
    blank show ?thesis by simp
qed

text \<open>
  C5 (as stated, refuted). To a reply without any JSON object \<^verbatim>\<open>OllamaLLM\<close>, the client
  the Orchestrator calls, answers \<^verbatim>\<open>{sentiment: 'neutral', explanation: 'Could not parse
  response'}\<close> whatever the comment says: for the comment \<^verbatim>\<open>Great app\<close> the keyword lists
  give \<^verbatim>\<open>positive\<close>, the client gives \<^verbatim>\<open>neutral\<close>.
\<close>

theorem ollama_no_json_ignores_keywords:
  "match_object_lazy (trim reply_prose) = None \<and>
   OllamaLLM_analyzeSentiment JSON_parse_flat (endpoint_always reply_prose) ''Great app'' ''en'' 0 =
     (\<lparr>osr_sentiment = JStr ''neutral'',
       osr_explanation = JStr ''Could not parse response''\<rparr>, 1) \<and>
   sr_sentiment (keyword_analysis ''Great app'') = JStr ''positive''"
  by code_simp

text \<open>
  C5 (amended). For a comment that is not blank and a reply that holds no \<^verbatim>\<open>{\<close> with a
  \<^verbatim>\<open>}\<close> after it: \<^verbatim>\<open>LocalLLM.analyzeSentiment\<close> returns the keyword analysis of the
  comment, one of the three labels, a function of the comment alone, so a second call
  on the same comment and any such reply (whatever the language, the parser and the
  endpoint) returns the same result; \<^verbatim>\<open>OllamaLLM.analyzeSentiment\<close> has no keyword lists
  and returns the fixed \<^verbatim>\<open>{sentiment: 'neutral', explanation: 'Could not parse
  response'}\<close>.
\<close>

theorem no_json_fallback:
  assumes "\<not> list_all is_space comment"
    and "ep n (LocalSentimentPrompt language comment) = Reply reply"
    and "ep n (OllamaSentimentPrompt language comment) = Reply reply"
    and "ep' n' (LocalSentimentPrompt language' comment) = Reply reply'"
    and "\<not> (\<exists>a b c. trim reply = a @ ''{'' @ b @ ''}'' @ c)"
    and "\<not> (\<exists>a b c. trim reply' = a @ ''{'' @ b @ ''}'' @ c)"
  shows "LocalLLM_analyzeSentiment P conv ep comment language n = (keyword_analysis comment, Suc n) \<and>
     sr_sentiment (keyword_analysis comment)
        \<in> {JStr ''positive'', JStr ''negative'', JStr ''neutral''} \<and>
     fst (LocalLLM_analyzeSentiment P' conv' ep' comment language' n') =
        fst (LocalLLM_analyzeSentiment P conv ep comment language n) \<and>
     OllamaLLM_analyzeSentiment P ep comment language n =
        (\<lparr>osr_sentiment = JStr ''neutral'',
          osr_explanation = JStr ''Could not parse response''\<rparr>, Suc n)"
proof -
  from assms(1) blank_cases [of comment]
  have nonblank: "\<not> (\<not> truthy (JStr comment) \<or> length (trim comment) = 0)" by simp
  from assms(5) have g: "match_object_greedy (trim reply) = None"
    and l: "match_object_lazy (trim reply) = None"
    using match_object_greedy_None_iff [of "trim reply"] match_object_lazy_None_iff [of "trim reply"]
    by blast+
  from assms(6) have g': "match_object_greedy (trim reply') = None"
    using match_object_greedy_None_iff [of "trim reply'"] by blast
  have first: "LocalLLM_analyzeSentiment P conv ep comment language n =
      (keyword_analysis comment, Suc n)"
    using nonblank assms(2) g by (simp add: LocalLLM_analyzeSentiment_def generate_def)
  have second: "LocalLLM_analyzeSentiment P' conv' ep' comment language' n' =
      (keyword_analysis comment, Suc n')"
    using nonblank assms(4) g' by (simp add: LocalLLM_analyzeSentiment_def generate_def)
  have other: "OllamaLLM_analyzeSentiment P ep comment language n =
      (\<lparr>osr_sentiment = JStr ''neutral'',
        osr_explanation = JStr ''Could not parse response''\<rparr>, Suc n)"
    using nonblank assms(3) l by (simp add: OllamaLLM_analyzeSentiment_def generate_def)
  from first second other keyword_analysis_shape [of comment] show ?thesis by simp
qed

text \<open>
  C5 (amended) at the comment \<^verbatim>\<open>Great app\<close> and a reply in prose: the first call in
  English and the second in German both give \<^verbatim>\<open>positive\<close> with confidence 0.6.
\<close>

theorem no_json_fallback_witness:
  "\<not> list_all is_space ''Great app'' \<and>
   endpoint_always reply_prose 0 (LocalSentimentPrompt ''en'' ''Great app'') = Reply reply_prose \<and>
   endpoint_always reply_prose 0 (OllamaSentimentPrompt ''en'' ''Great app'') = Reply reply_prose \<and>
   endpoint_always reply_prose 7 (LocalSentimentPrompt ''de'' ''Great app'') = Reply reply_prose \<and>
   \<not> (\<exists>a b c. trim reply_prose = a @ ''{'' @ b @ ''}'' @ c) \<and>
   LocalLLM_analyzeSentiment JSON_parse_flat conv_unreached (endpoint_always reply_prose)
       ''Great app'' ''en'' 0 =
     (\<lparr>sr_sentiment = JStr ''positive'', sr_confidence = Fin (6 / 10),
       sr_explanation = JUndefined\<rparr>, 1) \<and>
   fst (LocalLLM_analyzeSentiment JSON_parse_flat conv_unreached (endpoint_always reply_prose)
       ''Great app'' ''de'' 7) =
     \<lparr>sr_sentiment = JStr ''positive'', sr_confidence = Fin (6 / 10),
       sr_explanation = JUndefined\<rparr>"
proof -
  have nonblank: "\<not> list_all is_space ''Great app''" by code_simp
  have r1: "endpoint_always reply_prose 0 (LocalSentimentPrompt ''en'' ''Great app'') = Reply reply_prose"
    and r2: "endpoint_always reply_prose 0 (OllamaSentimentPrompt ''en'' ''Great app'') = Reply reply_prose"
    and r3: "endpoint_always reply_prose 7 (LocalSentimentPrompt ''de'' ''Great app'') = Reply reply_prose"
    by (simp_all add: endpoint_always_def)
  have "match_object_greedy (trim reply_prose) = None" by code_simp
  then have nojson: "\<not> (\<exists>a b c. trim reply_prose = a @ ''{'' @ b @ ''}'' @ c)"
    using match_object_greedy_None_iff [of "trim reply_prose"] by blast
  have kw: "keyword_analysis ''Great app'' =
      \<lparr>sr_sentiment = JStr ''positive'', sr_confidence = Fin (6 / 10), sr_explanation = JUndefined\<rparr>"
    by code_simp
  from no_json_fallback [where comment = "''Great app''" and ep = "endpoint_always reply_prose"
      and n = 0 and language = "''en''" and reply = reply_prose
      and ep' = "endpoint_always reply_prose" and n' = 7 and language' = "''de''"
      and reply' = reply_prose and P = JSON_parse_flat and conv = conv_unreached
      and P' = JSON_parse_flat and conv' = conv_unreached,
      OF nonblank r1 r2 r3 nojson nojson]
    nonblank r1 r2 r3 nojson kw
  show ?thesis by simp
qed




subsection \<open>Enrichment Orchestrator\<close>

lemma process_response_tracker:
  "w_tracker (process_response member client r w) = incrementProcessed (w_now w) (w_tracker w)"
  by (simp add: process_response_def Let_def split: prod.splits sum.splits)

lemma incrementProcessed_fields:
  "st_processed (incrementProcessed now s) = st_processed s + 1"
  "st_total (incrementProcessed now s) = st_total s"
  "st_inProgress (incrementProcessed now s) = st_inProgress s"
  by (simp_all add: incrementProcessed_def)

lemma process_responses_tracker:
  "st_processed (w_tracker (process_responses member client rs w)) =
     st_processed (w_tracker w) + int (length rs) \<and>
   st_total (w_tracker (process_responses member client rs w)) = st_total (w_tracker w) \<and>
   st_inProgress (w_tracker (process_responses member client rs w)) = st_inProgress (w_tracker w)"
proof (induction rs arbitrary: w)
  case Nil
  then show ?case by simp
next
  case (Cons r rs)
  show ?case
    using Cons.IH [of "process_response member client r w"]
    by (simp add: process_response_tracker incrementProcessed_fields)
qed

lemma run_tracker:
  assumes "getResponses (w_db w) = Inr responses"
    and "filter needs_processing responses \<noteq> []"
  shows "st_processed (w_tracker (processCommentsWithAI_with member client w)) =
           int (length (filter needs_processing responses)) \<and>
         st_total (w_tracker (processCommentsWithAI_with member client w)) =
           int (length (filter needs_processing responses)) \<and>
         \<not> st_inProgress (w_tracker (processCommentsWithAI_with member client w))"
proof -
  let ?todo = "filter needs_processing responses"
  let ?w1 = "w\<lparr>w_tracker := startProcessing (int (length ?todo)) (w_now w) (w_tracker w)\<rparr>"
  let ?w2 = "process_responses member client ?todo ?w1"
  have run: "processCommentsWithAI_with member client w =
               ?w2\<lparr>w_tracker := completeProcessing (w_now ?w2) (w_tracker ?w2)\<rparr>"
    using assms by (simp add: processCommentsWithAI_with_def Let_def)
  have "st_processed (w_tracker ?w2) = int (length ?todo)"
       "st_total (w_tracker ?w2) = int (length ?todo)"
    using process_responses_tracker [of member client ?todo ?w1]
    by (simp_all add: startProcessing_def)
  then show ?thesis
    unfolding run by (simp add: completeProcessing_def)
qed

lemma run_nothing_pending:
  assumes "getResponses (w_db w) = Inr responses"
    and "filter needs_processing responses = []"
  shows "processCommentsWithAI_with member client w = w"
  using assms by (simp add: processCommentsWithAI_with_def)

lemma run_scan_fails:
  assumes "getResponses (w_db w) = Inl e"
  shows "processCommentsWithAI_with member client w = w"
  using assms by (simp add: processCommentsWithAI_with_def)

lemma needs_processing_iff:
  "needs_processing row \<longleftrightarrow>
     (\<exists>comment. r_comment (fst row) = Some comment \<and> \<not> list_all is_space comment) \<and>
     r_sentiment (fst row) \<in> {None, Some [], Some ''neutral''}"
  using blank_cases
  by (auto simp: needs_processing_def split: option.splits)

lemma process_response_absent_db:
  "w_db (process_response None client r w) = w_db w"
  by (simp add: process_response_def call_updateResponse_def Let_def split: prod.splits sum.splits)

lemma process_responses_absent_db:
  "w_db (process_responses None client rs w) = w_db w"
  by (induction rs arbitrary: w) (simp_all add: process_response_absent_db)

text \<open>
  With the class \<^verbatim>\<open>LocalDB\<close> of the repository no run writes to the database, whatever
  the rows, the endpoint and the parser are.
\<close>

lemma run_absent_db:
  "w_db (processCommentsWithAI P ep w) = w_db w"
  by (simp add: processCommentsWithAI_def processCommentsWithAI_with_def LocalDB_updateResponse_def
        process_responses_absent_db Let_def split: sum.splits)

text \<open>
  Requests sent by a run. The client of the repository sends one request in each of
  its two methods for a comment that is not blank, and the loop calls both at every
  pending row; a client that sends one request per call is asked once or twice per
  row.
\<close>

lemma ollama_sentiment_requests:
  assumes "\<not> list_all is_space comment"
  shows "snd (OllamaLLM_analyzeSentiment P ep comment language n) = Suc n"
proof -
  from assms blank_cases [of comment]
  have nonblank: "\<not> (\<not> truthy (JStr comment) \<or> length (trim comment) = 0)" by simp
  then show ?thesis
    by (simp add: OllamaLLM_analyzeSentiment_def generate_def
          split: endpoint_reply.splits option.splits sum.splits)
qed

lemma ollama_topics_requests:
  assumes "\<not> list_all is_space comment"
  shows "snd (OllamaLLM_extractTopics P ep comment language n) = Suc n"
proof -
  from assms blank_cases [of comment]
  have nonblank: "\<not> (\<not> truthy (JStr comment) \<or> length (trim comment) = 0)" by simp
  then show ?thesis
    by (simp add: OllamaLLM_extractTopics_def generate_def
          split: endpoint_reply.splits option.splits sum.splits)
qed

lemma process_response_requests_ollama:
  assumes "needs_processing r"
  shows "w_requests (process_response member (ollamaLLM P ep) r w) = w_requests w + 2"
proof -
  from assms needs_processing_iff [of r]
  obtain comment where c: "r_comment (fst r) = Some comment" "\<not> list_all is_space comment"
    by blast
  define language where
    "language = (case str_or_null (r_language (fst r)) of None \<Rightarrow> ''en'' | Some l \<Rightarrow> l)"
  obtain s n1 where s: "OllamaLLM_analyzeSentiment P ep comment language (w_requests w) = (s, n1)"
    by (cases "OllamaLLM_analyzeSentiment P ep comment language (w_requests w)")
  obtain t n2 where t: "OllamaLLM_extractTopics P ep comment language n1 = (t, n2)"
    by (cases "OllamaLLM_extractTopics P ep comment language n1")
  from s ollama_sentiment_requests [OF c(2), of P ep language "w_requests w"]
  have n1: "n1 = Suc (w_requests w)" by simp
  from t ollama_topics_requests [OF c(2), of P ep language n1]
  have n2: "n2 = Suc n1" by simp
  show ?thesis
    using c(1) s t n1 n2
    by (simp add: process_response_def ollamaLLM_def Let_def language_def split: sum.splits)
qed

lemma process_responses_requests_ollama:
  assumes "\<forall>r \<in> set rs. needs_processing r"
  shows "w_requests (process_responses member (ollamaLLM P ep) rs w) = w_requests w + 2 * length rs"
  using assms
proof (induction rs arbitrary: w)
  case Nil
  then show ?case by simp
next
  case (Cons r rs)
  then show ?case
    using Cons.IH [of "process_response member (ollamaLLM P ep) r w"]
    by (simp add: process_response_requests_ollama)
qed

lemma process_response_requests_bounds:
  assumes "\<forall>c l n. snd (cc_analyzeSentiment client c l n) = Suc n"
    and "\<forall>c l n. snd (cc_extractTopics client c l n) = Suc n"
  shows "w_requests w + 1 \<le> w_requests (process_response member client r w) \<and>
         w_requests (process_response member client r w) \<le> w_requests w + 2"
proof -
  define comment where "comment = (case r_comment (fst r) of None \<Rightarrow> [] | Some c \<Rightarrow> c)"
  define language where
    "language = (case str_or_null (r_language (fst r)) of None \<Rightarrow> ''en'' | Some l \<Rightarrow> l)"
  obtain s n1 where s: "cc_analyzeSentiment client comment language (w_requests w) = (s, n1)"
    by (cases "cc_analyzeSentiment client comment language (w_requests w)")
  obtain t n2 where t: "cc_extractTopics client comment language n1 = (t, n2)"
    by (cases "cc_extractTopics client comment language n1")
  from s assms(1) have n1: "n1 = Suc (w_requests w)"
    by (metis snd_conv)
  from t assms(2) have n2: "n2 = Suc n1"
    by (metis snd_conv)
  show ?thesis
    using s t n1 n2
    by (simp add: process_response_def Let_def comment_def [symmetric] language_def [symmetric]
          split: sum.splits)
qed

lemma process_responses_requests_bounds:
  assumes "\<forall>c l n. snd (cc_analyzeSentiment client c l n) = Suc n"
    and "\<forall>c l n. snd (cc_extractTopics client c l n) = Suc n"
  shows "w_requests w + length rs \<le> w_requests (process_responses member client rs w) \<and>
         w_requests (process_responses member client rs w) \<le> w_requests w + 2 * length rs"
proof (induction rs arbitrary: w)
  case Nil
  then show ?case by simp
next
  case (Cons r rs)
  show ?case
    using Cons.IH [of "process_response member client r w"]
      process_response_requests_bounds [OF assms, of w member r]
    by simp
qed

lemma run_requests:
  assumes "getResponses (w_db w) = Inr responses"
  shows "w_requests (processCommentsWithAI_with member client w) =
         w_requests (process_responses member client (filter needs_processing responses)
           (w\<lparr>w_tracker := startProcessing (int (length (filter needs_processing responses)))
                (w_now w) (w_tracker w)\<rparr>))"
  using assms by (cases "filter needs_processing responses")
    (simp_all add: processCommentsWithAI_with_def Let_def)

lemma run_requests_ollama:
  assumes "getResponses (w_db w) = Inr responses"
  shows "w_requests (processCommentsWithAI_with member (ollamaLLM P ep) w) =
         w_requests w + 2 * length (filter needs_processing responses)"
  unfolding run_requests [OF assms]
  by (simp add: process_responses_requests_ollama)

lemma run_requests_bounds:
  assumes "getResponses (w_db w) = Inr responses"
    and "\<forall>c l n. snd (cc_analyzeSentiment client c l n) = Suc n"
    and "\<forall>c l n. snd (cc_extractTopics client c l n) = Suc n"
  shows "w_requests w + length (filter needs_processing responses)
           \<le> w_requests (processCommentsWithAI_with member client w) \<and>
         w_requests (processCommentsWithAI_with member client w)
           \<le> w_requests w + 2 * length (filter needs_processing responses)"
  unfolding run_requests [OF assms(1)]
  using process_responses_requests_bounds [OF assms(2,3), of
      "w\<lparr>w_tracker := startProcessing (int (length (filter needs_processing responses)))
                (w_now w) (w_tracker w)\<rparr>" "filter needs_processing responses" member]
  by simp

text \<open>
  C3 (as stated, refuted at N = 0). The tracker is as a completed run over one row left
  it (\<^verbatim>\<open>processed == 1\<close>) and no row of the database is pending. The run finds N = 0
  pending rows and returns before \<^verbatim>\<open>startProcessing\<close>: it ends with \<^verbatim>\<open>processed == 1\<close>,
  not \<^verbatim>\<open>processed == N\<close>.
\<close>

theorem empty_run_keeps_processed:
  "getResponses (w_db world_after_a_run) = Inr [(done_row, None)] \<and>
   length (filter needs_processing [(done_row, None)]) = 0 \<and>
   st_processed (w_tracker (processCommentsWithAI JSON_parse_flat (endpoint_always reply_positive)
      world_after_a_run)) = 1"
  by code_simp

text \<open>
  C3 (amended). Let the scan of a run return N pending rows. Whatever the client does at
  each row (return or throw, in \<^verbatim>\<open>analyzeSentiment\<close> or in \<^verbatim>\<open>extractTopics\<close>) and
  whatever the member \<^verbatim>\<open>LocalDB.updateResponse\<close> is or does at each row (absent,
  throwing, succeeding):

  \<^item> when N \<open>\<ge>\<close> 1 the run ends with \<^verbatim>\<open>processed == N\<close>, \<^verbatim>\<open>total == N\<close> and
    \<^verbatim>\<open>inProgress == false\<close>, from any state of the tracker;
  \<^item> the loop reaches every row: with the client of the repository the run sends
    exactly 2N requests, whatever the endpoint answers and whatever \<^verbatim>\<open>updateResponse\<close>
    does, and with any client that sends one request per call it sends at least N and
    at most 2N;
  \<^item> when N = 0 the run changes nothing: the tracker keeps what the last started run
    left.
\<close>

theorem run_counts_every_row:
  assumes "getResponses (w_db w) = Inr responses"
  shows "(filter needs_processing responses \<noteq> [] \<longrightarrow>
       st_processed (w_tracker (processCommentsWithAI_with member client w)) =
         int (length (filter needs_processing responses)) \<and>
       st_total (w_tracker (processCommentsWithAI_with member client w)) =
         int (length (filter needs_processing responses)) \<and>
       \<not> st_inProgress (w_tracker (processCommentsWithAI_with member client w)) \<and>
       st_processed (w_tracker (processCommentsWithAI P ep w)) =
         int (length (filter needs_processing responses)) \<and>
       st_total (w_tracker (processCommentsWithAI P ep w)) =
         int (length (filter needs_processing responses)) \<and>
       \<not> st_inProgress (w_tracker (processCommentsWithAI P ep w))) \<and>
     w_requests (processCommentsWithAI P ep w) =
       w_requests w + 2 * length (filter needs_processing responses) \<and>
     w_requests (processCommentsWithAI_with member (ollamaLLM P ep) w) =
       w_requests w + 2 * length (filter needs_processing responses) \<and>
     ((\<forall>c l n. snd (cc_analyzeSentiment client c l n) = Suc n) \<and>
      (\<forall>c l n. snd (cc_extractTopics client c l n) = Suc n) \<longrightarrow>
       w_requests w + length (filter needs_processing responses)
         \<le> w_requests (processCommentsWithAI_with member client w) \<and>
       w_requests (processCommentsWithAI_with member client w)
         \<le> w_requests w + 2 * length (filter needs_processing responses)) \<and>
     (filter needs_processing responses = [] \<longrightarrow>
       processCommentsWithAI_with member client w = w \<and> processCommentsWithAI P ep w = w)"
proof (intro conjI impI)
  assume some: "filter needs_processing responses \<noteq> []"
  note general = run_tracker [OF assms some, of member client]
  note actual = run_tracker [OF assms some, of LocalDB_updateResponse "ollamaLLM P ep"]
  show "st_processed (w_tracker (processCommentsWithAI_with member client w)) =
      int (length (filter needs_processing responses))"
    using general by simp
  show "st_total (w_tracker (processCommentsWithAI_with member client w)) =
      int (length (filter needs_processing responses))"
    using general by simp
  show "\<not> st_inProgress (w_tracker (processCommentsWithAI_with member client w))"
    using general by simp
  show "st_processed (w_tracker (processCommentsWithAI P ep w)) =
      int (length (filter needs_processing responses))"
    using actual by (simp add: processCommentsWithAI_def)
  show "st_total (w_tracker (processCommentsWithAI P ep w)) =
      int (length (filter needs_processing responses))"
    using actual by (simp add: processCommentsWithAI_def)
  show "\<not> st_inProgress (w_tracker (processCommentsWithAI P ep w))"
    using actual by (simp add: processCommentsWithAI_def)
next
  show "w_requests (processCommentsWithAI P ep w) =
       w_requests w + 2 * length (filter needs_processing responses)"
    using run_requests_ollama [OF assms, of LocalDB_updateResponse P ep]
    by (simp add: processCommentsWithAI_def)
next
  show "w_requests (processCommentsWithAI_with member (ollamaLLM P ep) w) =
       w_requests w + 2 * length (filter needs_processing responses)"
    by (rule run_requests_ollama [OF assms])
next
  assume one: "(\<forall>c l n. snd (cc_analyzeSentiment client c l n) = Suc n) \<and>
      (\<forall>c l n. snd (cc_extractTopics client c l n) = Suc n)"
  then have h1: "\<forall>c l n. snd (cc_analyzeSentiment client c l n) = Suc n"
    and h2: "\<forall>c l n. snd (cc_extractTopics client c l n) = Suc n"
    by blast+
  note bounds = run_requests_bounds [OF assms h1 h2, of member]
  show "w_requests w + length (filter needs_processing responses)
         \<le> w_requests (processCommentsWithAI_with member client w)"
    using bounds by blast
  show "w_requests (processCommentsWithAI_with member client w)
         \<le> w_requests w + 2 * length (filter needs_processing responses)"
    using bounds by blast
next
  assume none: "filter needs_processing responses = []"
  show "processCommentsWithAI_with member client w = w"
    by (rule run_nothing_pending [OF assms none])
  show "processCommentsWithAI P ep w = w"
    using run_nothing_pending [OF assms none, of LocalDB_updateResponse "ollamaLLM P ep"]
    by (simp add: processCommentsWithAI_def)
qed

text \<open>
  C3 (amended) at concrete runs. Three rows of which two are pending: with the
  repository's client and class \<^verbatim>\<open>LocalDB\<close> the endpoint fails on the first two requests
  and every row throws at \<^verbatim>\<open>updateResponse\<close>, and the run sends 4 requests; with the two
  stand-ins the first row throws in \<^verbatim>\<open>analyzeSentiment\<close>, after one request, and the
  second row passes all three calls, and the run sends 3 requests. Both runs end with \<^verbatim>\<open>processed == 2\<close>, \<^verbatim>\<open>total == 2\<close> and
  \<^verbatim>\<open>inProgress == false\<close>. And a run that finds no pending row after an earlier run
  leaves the world as it was.
\<close>

theorem run_counts_every_row_witness:
  "getResponses (w_db (world_of three_db)) =
     Inr [(neutral_row, None), (done_row, None), (sample_row, None)] \<and>
   filter needs_processing [(neutral_row, None), (done_row, None), (sample_row, None)] =
     [(neutral_row, None), (sample_row, None)] \<and>
   st_processed (w_tracker (processCommentsWithAI JSON_parse_flat endpoint_flaky (world_of three_db))) = 2 \<and>
   st_total (w_tracker (processCommentsWithAI JSON_parse_flat endpoint_flaky (world_of three_db))) = 2 \<and>
   \<not> st_inProgress (w_tracker (processCommentsWithAI JSON_parse_flat endpoint_flaky (world_of three_db))) \<and>
   w_requests (processCommentsWithAI JSON_parse_flat endpoint_flaky (world_of three_db)) = 4 \<and>
   st_processed (w_tracker (processCommentsWithAI_with (Some updateResponse_row3_throws)
      client_throws_on_crashes (world_of three_db))) = 2 \<and>
   st_total (w_tracker (processCommentsWithAI_with (Some updateResponse_row3_throws)
      client_throws_on_crashes (world_of three_db))) = 2 \<and>
   \<not> st_inProgress (w_tracker (processCommentsWithAI_with (Some updateResponse_row3_throws)
      client_throws_on_crashes (world_of three_db))) \<and>
   2 \<le> w_requests (processCommentsWithAI_with (Some updateResponse_row3_throws)
      client_throws_on_crashes (world_of three_db)) \<and>
   w_requests (processCommentsWithAI_with (Some updateResponse_row3_throws)
      client_throws_on_crashes (world_of three_db)) = 3 \<and>
   getResponses (w_db world_after_a_run) = Inr [(done_row, None)] \<and>
   filter needs_processing [(done_row, None)] = [] \<and>
   processCommentsWithAI JSON_parse_flat endpoint_flaky world_after_a_run = world_after_a_run"
proof -
  have scan: "getResponses (w_db (world_of three_db)) =
      Inr [(neutral_row, None), (done_row, None), (sample_row, None)]"
    by code_simp
  have todo: "filter needs_processing [(neutral_row, None), (done_row, None), (sample_row, None)] =
      [(neutral_row, None), (sample_row, None)]"
    by code_simp
  then have some: "filter needs_processing [(neutral_row, None), (done_row, None), (sample_row, None)] \<noteq> []"
    by simp
  have start: "w_requests (world_of three_db) = 0"
    by (simp add: world_of_def)
  have one: "\<forall>c l n. snd (cc_analyzeSentiment client_throws_on_crashes c l n) = Suc n"
      "\<forall>c l n. snd (cc_extractTopics client_throws_on_crashes c l n) = Suc n"
    by (simp_all add: client_throws_on_crashes_def)
  have exact: "w_requests (processCommentsWithAI_with (Some updateResponse_row3_throws)
      client_throws_on_crashes (world_of three_db)) = 3"
    by code_simp
  have scan0: "getResponses (w_db world_after_a_run) = Inr [(done_row, None)]" by code_simp
  have none: "filter needs_processing [(done_row, None)] = []" by code_simp
  note at_three = run_counts_every_row [OF scan, of "Some updateResponse_row3_throws"
      client_throws_on_crashes JSON_parse_flat endpoint_flaky]
  note at_none = run_counts_every_row [OF scan0, of "Some updateResponse_row3_throws"
      client_throws_on_crashes JSON_parse_flat endpoint_flaky]
  from at_three scan todo some start one exact
  have three: "st_processed (w_tracker (processCommentsWithAI JSON_parse_flat endpoint_flaky (world_of three_db))) = 2 \<and>
   st_total (w_tracker (processCommentsWithAI JSON_parse_flat endpoint_flaky (world_of three_db))) = 2 \<and>
   \<not> st_inProgress (w_tracker (processCommentsWithAI JSON_parse_flat endpoint_flaky (world_of three_db))) \<and>
   w_requests (processCommentsWithAI JSON_parse_flat endpoint_flaky (world_of three_db)) = 4 \<and>
   st_processed (w_tracker (processCommentsWithAI_with (Some updateResponse_row3_throws)
      client_throws_on_crashes (world_of three_db))) = 2 \<and>
   st_total (w_tracker (processCommentsWithAI_with (Some updateResponse_row3_throws)
      client_throws_on_crashes (world_of three_db))) = 2 \<and>
   \<not> st_inProgress (w_tracker (processCommentsWithAI_with (Some updateResponse_row3_throws)
      client_throws_on_crashes (world_of three_db))) \<and>
   2 \<le> w_requests (processCommentsWithAI_with (Some updateResponse_row3_throws)
      client_throws_on_crashes (world_of three_db))"
    by simp
  from at_none none
  have empty: "processCommentsWithAI JSON_parse_flat endpoint_flaky world_after_a_run = world_after_a_run"
    by simp
  from scan todo three exact scan0 none empty show ?thesis by blast
qed

text \<open>
  For the comment \<^verbatim>\<open>Great app\<close> and the reply \<^verbatim>\<open>{"sentiment":"positive"}\<close> the client
  returns the sentiment \<^verbatim>\<open>positive\<close>.
\<close>

lemma client_says_positive:
  "OllamaLLM_analyzeSentiment JSON_parse_flat (endpoint_always reply_positive) ''Great app'' ''en'' 0 =
     (\<lparr>osr_sentiment = JStr ''positive'', osr_explanation = JStr ''Analysis completed''\<rparr>, 1)"
  by code_simp

text \<open>
  C2 (the code at the failing input). One pending row, \<^verbatim>\<open>{id: 1, comment: 'Great app',
  sentiment: NULL}\<close>, and an endpoint that answers \<^verbatim>\<open>{"sentiment":"positive"}\<close>: the
  client returns \<^verbatim>\<open>positive\<close>, the loop calls \<^verbatim>\<open>LocalDB.updateResponse\<close>, which class
  \<^verbatim>\<open>LocalDB\<close> does not have, the \<^verbatim>\<open>TypeError\<close> is caught and the row is counted. After
  the run (two requests sent, one row counted) the database is what it was: sentiment
  NULL, confidence NULL, no topic mention.
\<close>

theorem run_persists_nothing:
  "w_db (processCommentsWithAI JSON_parse_flat (endpoint_always reply_positive) (world_of sample_db))
     = sample_db \<and>
   map r_sentiment (db_nps_responses (w_db (processCommentsWithAI JSON_parse_flat
      (endpoint_always reply_positive) (world_of sample_db)))) = [None] \<and>
   map r_sentiment_confidence (db_nps_responses (w_db (processCommentsWithAI JSON_parse_flat
      (endpoint_always reply_positive) (world_of sample_db)))) = [None] \<and>
   db_topic_mentions (w_db (processCommentsWithAI JSON_parse_flat
      (endpoint_always reply_positive) (world_of sample_db))) = [] \<and>
   w_requests (processCommentsWithAI JSON_parse_flat
      (endpoint_always reply_positive) (world_of sample_db)) = 2 \<and>
   st_processed (w_tracker (processCommentsWithAI JSON_parse_flat
      (endpoint_always reply_positive) (world_of sample_db))) = 1"
  by code_simp

text \<open>
  C1 (as stated, refuted). One pending row and an endpoint that answers
  \<^verbatim>\<open>{"sentiment":"positive"}\<close>: the first run ends with \<^verbatim>\<open>total == 1\<close> after two
  requests, and the second run, with no row inserted in between, again starts the
  tracker with \<^verbatim>\<open>total == 1\<close> and sends two more requests. Where no row is pending and
  an earlier run has completed, two runs in succession both leave \<^verbatim>\<open>total == 1\<close>, not
  0. And a row whose comment is one space, which is not empty, with no sentiment, is
  not pending.
\<close>

theorem second_run_repeats_first:
  "st_total (w_tracker (processCommentsWithAI JSON_parse_flat (endpoint_always reply_positive)
      (world_of sample_db))) = 1 \<and>
   w_requests (processCommentsWithAI JSON_parse_flat (endpoint_always reply_positive)
      (world_of sample_db)) = 2 \<and>
   st_total (w_tracker (processCommentsWithAI JSON_parse_flat (endpoint_always reply_positive)
      (processCommentsWithAI JSON_parse_flat (endpoint_always reply_positive)
         (world_of sample_db)))) = 1 \<and>
   w_requests (processCommentsWithAI JSON_parse_flat (endpoint_always reply_positive)
      (processCommentsWithAI JSON_parse_flat (endpoint_always reply_positive)
         (world_of sample_db))) = 4 \<and>
   filter needs_processing [(done_row, None)] = [] \<and>
   st_total (w_tracker (processCommentsWithAI JSON_parse_flat (endpoint_always reply_positive)
      (processCommentsWithAI JSON_parse_flat (endpoint_always reply_positive)
         world_after_a_run))) = 1 \<and>
   r_comment blank_row = Some '' '' \<and> r_sentiment blank_row = None \<and>
   \<not> needs_processing (blank_row, None)"
  by code_simp

text \<open>
  C1 (amended). A run that finds no pending row returns at once and changes nothing:
  the tracker is not started (\<^verbatim>\<open>total\<close>, \<^verbatim>\<open>processed\<close> and \<^verbatim>\<open>inProgress\<close> keep the values
  the last started run left, so \<^verbatim>\<open>total\<close> is 0 only when no run was started before),
  the Store is not written and no request is sent; running it again changes nothing
  either. A row is pending exactly when its comment is not NULL and not blank after
  trimming and its sentiment is NULL, the empty string or \<^verbatim>\<open>neutral\<close>.
\<close>

theorem empty_run_is_immediate:
  "(getResponses (w_db w) = Inr responses \<and> filter needs_processing responses = [] \<longrightarrow>
      processCommentsWithAI P ep w = w \<and>
      processCommentsWithAI P ep (processCommentsWithAI P ep w) = w) \<and>
   (needs_processing row \<longleftrightarrow>
      (\<exists>comment. r_comment (fst row) = Some comment \<and> \<not> list_all is_space comment) \<and>
      r_sentiment (fst row) \<in> {None, Some [], Some ''neutral''})"
  using run_nothing_pending [of w responses LocalDB_updateResponse "ollamaLLM P ep"]
    needs_processing_iff [of row]
  by (simp add: processCommentsWithAI_def)

text \<open>
  C1 (amended) at a database whose only row has the sentiment \<^verbatim>\<open>positive\<close>; and the
  filter on a row with sentiment \<^verbatim>\<open>neutral\<close>, which is pending.
\<close>

theorem empty_run_is_immediate_witness:
  "getResponses (w_db (world_of done_db)) = Inr [(done_row, None)] \<and>
   filter needs_processing [(done_row, None)] = [] \<and>
   processCommentsWithAI JSON_parse_flat (endpoint_always reply_positive) (world_of done_db) =
     world_of done_db \<and>
   needs_processing (neutral_row, None) \<and> \<not> needs_processing (done_row, None)"
proof -
  have scan: "getResponses (w_db (world_of done_db)) = Inr [(done_row, None)]" by code_simp
  have none: "filter needs_processing [(done_row, None)] = []" by code_simp
  have rows: "needs_processing (neutral_row, None)" "\<not> needs_processing (done_row, None)"
    by code_simp+
  from empty_run_is_immediate [of "world_of done_db" "[(done_row, None)]" JSON_parse_flat
      "endpoint_always reply_positive" "(neutral_row, None)"] scan none rows
  show ?thesis by simp
qed

text \<open>
  C6 (as stated, refuted). With the database connection closed the scan throws, and
  \<^verbatim>\<open>POST /api/process-ai\<close> still answers status 200 with \<^verbatim>\<open>success: true\<close> and the message
  that processing started; the failure is not in the response.
\<close>

theorem scan_failure_answers_success:
  "getResponses (w_db (world_of (close sample_db))) = Inl TypeError \<and>
   process_ai_handler JSON_parse_flat (endpoint_always reply_positive) (world_of (close sample_db)) =
     (\<lparr>res_status = 200,
       res_body = JObj [(''success'', JBool True),
                        (''message'', JStr ''AI processing started in background'')]\<rparr>,
      world_of (close sample_db))"
  by code_simp

text \<open>
  C6 (amended). When the scan throws at a trigger made while no run is in progress,
  \<^verbatim>\<open>processCommentsWithAI\<close> catches the error itself (it is logged, not rethrown), the
  trigger answers status 200 with \<^verbatim>\<open>success: true\<close>, and no run starts: the tracker,
  the Store and the count of requests are what they were.
\<close>

theorem scan_failure_is_swallowed:
  assumes "getResponses (w_db w) = Inl e"
    and "\<not> isProcessing (w_tracker w)"
  shows "process_ai_handler P ep w =
       (\<lparr>res_status = 200,
         res_body = JObj [(''success'', JBool True),
                          (''message'', JStr ''AI processing started in background'')]\<rparr>, w) \<and>
     processCommentsWithAI P ep w = w"
  using run_scan_fails [OF assms(1), of LocalDB_updateResponse "ollamaLLM P ep"] assms(2)
  by (simp add: process_ai_handler_def processCommentsWithAI_def)

text \<open>C6 (amended) at a closed database of three rows.\<close>

theorem scan_failure_is_swallowed_witness:
  "getResponses (w_db (world_of (close three_db))) = Inl TypeError \<and>
   \<not> isProcessing (w_tracker (world_of (close three_db))) \<and>
   res_status (fst (process_ai_handler JSON_parse_flat endpoint_flaky (world_of (close three_db)))) = 200 \<and>
   snd (process_ai_handler JSON_parse_flat endpoint_flaky (world_of (close three_db))) =
     world_of (close three_db)"
proof -
  have scan: "getResponses (w_db (world_of (close three_db))) = Inl TypeError" by code_simp
  have idle: "\<not> isProcessing (w_tracker (world_of (close three_db)))" by code_simp
  from scan_failure_is_swallowed [OF scan idle, of JSON_parse_flat endpoint_flaky] scan idle
  show ?thesis by simp
qed

end